theory Spec2Isabelle
  imports Main
begin

section \<open>JavaScript values\<close>

text \<open>
  The values that \<^verbatim>\<open>req.json()\<close> and \<^verbatim>\<open>response.json()\<close> hand to the program, plus
  \<^verbatim>\<open>undefined\<close>, which a property read yields for an absent key. A number is an integer
  here: the program looks at a number's type tag only, and prints one when an error body
  carries a number as its message. An object is the list of its own properties; a parsed
  object carries each key once.
\<close>

datatype jsval =
    JUndefined
  | JNull
  | JBool bool
  | JNumber int
  | JString string
  | JArray "jsval list"
  | JObject "(string \<times> jsval) list"

text \<open>What JavaScript throws: an \<^verbatim>\<open>Error\<close> instance with its message, or any other value.\<close>

datatype thrown = Error string | NonError

text \<open>\<^verbatim>\<open>data[key]\<close>: reading a property of \<^verbatim>\<open>null\<close> or \<^verbatim>\<open>undefined\<close> throws a TypeError
  (the wording is V8's); on every other value an absent property reads as \<^verbatim>\<open>undefined\<close>.\<close>

fun get_property :: "jsval \<Rightarrow> string \<Rightarrow> thrown + jsval" where
  "get_property JUndefined k =
     Inl (Error (''Cannot read properties of undefined (reading '' @ [CHR 0x27] @ k @ [CHR 0x27] @ '')''))"
| "get_property JNull k =
     Inl (Error (''Cannot read properties of null (reading '' @ [CHR 0x27] @ k @ [CHR 0x27] @ '')''))"
| "get_property (JObject kvs) k = Inr (case map_of kvs k of None \<Rightarrow> JUndefined | Some v \<Rightarrow> v)"
| "get_property _ k = Inr JUndefined"

text \<open>JavaScript truthiness, as tested by \<^verbatim>\<open>if (x)\<close>, \<^verbatim>\<open>x && y\<close> and \<^verbatim>\<open>x || y\<close>.\<close>

fun truthy :: "jsval \<Rightarrow> bool" where
  "truthy JUndefined = False"
| "truthy JNull = False"
| "truthy (JBool b) = b"
| "truthy (JNumber n) = (n \<noteq> 0)"
| "truthy (JString s) = (s \<noteq> [])"
| "truthy (JArray _) = True"
| "truthy (JObject _) = True"

text \<open>\<^verbatim>\<open>a || b\<close> on a string that may be \<^verbatim>\<open>null\<close> or \<^verbatim>\<open>undefined\<close>: the empty string is falsy too.\<close>

definition or_else :: "string option \<Rightarrow> string \<Rightarrow> string" where
  "or_else a b = (case a of None \<Rightarrow> b | Some s \<Rightarrow> if s = [] then b else s)"

section \<open>The settings schema (src/lib/validations/accessibility.ts)\<close>

text \<open>The five flags. The client holds them as raw JavaScript values, the server as
  validated booleans, hence the type parameter.\<close>

record 'v AccessibilitySettings =
  voiceNavigation :: 'v
  screenReader :: 'v
  highContrast :: 'v
  largeText :: 'v
  keyboardNav :: 'v

text \<open>\<^verbatim>\<open>AccessibilitySettingsSchema.extend({id, userId, createdAt, updatedAt})\<close>. The cuid is
  an opaque token drawn from a counter; dates are milliseconds.\<close>

record AccessibilitySettingsResponse = "bool AccessibilitySettings" +
  id' :: nat
  userId :: string
  createdAt :: nat
  updatedAt :: nat

text \<open>An issue of a \<^verbatim>\<open>ZodError\<close>, as zod reports it.\<close>

record ZodIssue =
  code :: string
  expected :: string
  received :: string
  path :: "string list"
  message :: string

text \<open>zod's \<^verbatim>\<open>getParsedType\<close>, on the values JSON can carry.\<close>

fun getParsedType :: "jsval \<Rightarrow> string" where
  "getParsedType JUndefined = ''undefined''"
| "getParsedType JNull = ''null''"
| "getParsedType (JBool _) = ''boolean''"
| "getParsedType (JNumber _) = ''number''"
| "getParsedType (JString _) = ''string''"
| "getParsedType (JArray _) = ''array''"
| "getParsedType (JObject _) = ''object''"

definition invalid_type :: "string \<Rightarrow> jsval \<Rightarrow> string list \<Rightarrow> ZodIssue" where
  "invalid_type exp v p =
     \<lparr>code = ''invalid_type'', expected = exp, received = getParsedType v, path = p,
      message = (if v = JUndefined then ''Required''
                 else ''Expected '' @ exp @ '', received '' @ getParsedType v)\<rparr>"

text \<open>\<^verbatim>\<open>z.boolean()\<close> at a path.\<close>

definition z_boolean :: "string list \<Rightarrow> jsval \<Rightarrow> ZodIssue list + bool" where
  "z_boolean p v = (case v of JBool b \<Rightarrow> Inr b | _ \<Rightarrow> Inl [invalid_type ''boolean'' v p])"

text \<open>\<^verbatim>\<open>.default(d)\<close>: an \<^verbatim>\<open>undefined\<close> input is replaced by the default before the inner
  schema runs.\<close>

definition z_default ::
  "bool \<Rightarrow> (string list \<Rightarrow> jsval \<Rightarrow> ZodIssue list + bool) \<Rightarrow> string list \<Rightarrow> jsval \<Rightarrow> ZodIssue list + bool" where
  "z_default d inner p v = inner p (if v = JUndefined then JBool d else v)"

text \<open>\<^verbatim>\<open>data[key]\<close> on an object's property list.\<close>

definition property :: "(string \<times> jsval) list \<Rightarrow> string \<Rightarrow> jsval" where
  "property kvs k = (case map_of kvs k of None \<Rightarrow> JUndefined | Some v \<Rightarrow> v)"

text \<open>One key of the \<^verbatim>\<open>z.object\<close> shape: \<^verbatim>\<open>z.boolean().default(false)\<close> on \<^verbatim>\<open>data[key]\<close>.\<close>

definition shape_key :: "(string \<times> jsval) list \<Rightarrow> string \<Rightarrow> ZodIssue list + bool" where
  "shape_key kvs k =
     z_default False z_boolean [k] (property kvs k)"

definition issues_of :: "ZodIssue list + bool \<Rightarrow> ZodIssue list" where
  "issues_of r = (case r of Inl is \<Rightarrow> is | Inr _ \<Rightarrow> [])"

definition value_of :: "ZodIssue list + bool \<Rightarrow> bool" where
  "value_of r = (case r of Inl _ \<Rightarrow> False | Inr b \<Rightarrow> b)"

text \<open>\<^verbatim>\<open>AccessibilitySettingsSchema.parse\<close>: a non-object is one issue at the root; an object
  has its five keys parsed in shape order, the issues of all keys are collected, and
  unrecognised keys are stripped. \<open>Inl\<close> is the thrown \<^verbatim>\<open>ZodError\<close>'s issue list.\<close>

definition AccessibilitySettingsSchema :: "jsval \<Rightarrow> ZodIssue list + bool AccessibilitySettings" where
  "AccessibilitySettingsSchema body =
     (case body of
        JObject kvs \<Rightarrow>
          (let vn = shape_key kvs ''voiceNavigation'';
               sr = shape_key kvs ''screenReader'';
               hc = shape_key kvs ''highContrast'';
               lt = shape_key kvs ''largeText'';
               kn = shape_key kvs ''keyboardNav'';
               issues = issues_of vn @ issues_of sr @ issues_of hc @ issues_of lt @ issues_of kn
           in if issues = []
              then Inr \<lparr>voiceNavigation = value_of vn, screenReader = value_of sr,
                        highContrast = value_of hc, largeText = value_of lt,
                        keyboardNav = value_of kn\<rparr>
              else Inl issues)
      | _ \<Rightarrow> Inl [invalid_type ''object'' body []])"

section \<open>The database (Prisma client over the migration's two tables)\<close>

text \<open>
  Table \<^verbatim>\<open>User\<close>: primary key \<^verbatim>\<open>id\<close>, unique index on \<^verbatim>\<open>email\<close>; the nullable name and
  password and the row's dates are never read or written by the handlers and are left out.
  Table \<^verbatim>\<open>AccessibilitySettings\<close>: unique index on \<^verbatim>\<open>userId\<close>, foreign key to \<^verbatim>\<open>User.id\<close>.
  The state also holds the cuid counter and the clock that \<^verbatim>\<open>now()\<close> and \<^verbatim>\<open>@updatedAt\<close> read.
\<close>

record User =
  user_id :: string
  email :: string

record database =
  user :: "User list"
  accessibilitySettings :: "AccessibilitySettingsResponse list"
  cuid_counter :: nat
  clock :: nat

text \<open>What the handlers' \<^verbatim>\<open>try\<close> blocks can catch. A Prisma error carries its code:
  P2002 is a unique-constraint failure, P2003 a foreign-key failure.\<close>

datatype exn =
    ZodError "ZodIssue list"
  | SyntaxError
  | PrismaClientKnownRequestError string

definition user_findUnique :: "database \<Rightarrow> string \<Rightarrow> User option" where
  "user_findUnique db i = find (\<lambda>u. user_id u = i) (user db)"

definition user_create :: "database \<Rightarrow> string \<Rightarrow> string \<Rightarrow> exn + database" where
  "user_create db i e =
     (if list_ex (\<lambda>u. user_id u = i \<or> email u = e) (user db)
      then Inl (PrismaClientKnownRequestError ''P2002'')
      else Inr (db\<lparr>user := user db @ [\<lparr>user_id = i, email = e\<rparr>]\<rparr>))"

definition accessibilitySettings_findUnique ::
  "database \<Rightarrow> string \<Rightarrow> AccessibilitySettingsResponse option" where
  "accessibilitySettings_findUnique db u = find (\<lambda>r. userId r = u) (accessibilitySettings db)"

definition accessibilitySettings_create ::
  "database \<Rightarrow> string \<Rightarrow> bool AccessibilitySettings
     \<Rightarrow> exn + (AccessibilitySettingsResponse \<times> database)" where
  "accessibilitySettings_create db u d =
     (if accessibilitySettings_findUnique db u \<noteq> None
      then Inl (PrismaClientKnownRequestError ''P2002'')
      else if user_findUnique db u = None
      then Inl (PrismaClientKnownRequestError ''P2003'')
      else
        (let r = \<lparr>voiceNavigation = voiceNavigation d, screenReader = screenReader d,
                  highContrast = highContrast d, largeText = largeText d,
                  keyboardNav = keyboardNav d,
                  id' = cuid_counter db, userId = u,
                  createdAt = clock db, updatedAt = clock db\<rparr>
         in Inr (r, db\<lparr>accessibilitySettings := accessibilitySettings db @ [r],
                        cuid_counter := Suc (cuid_counter db)\<rparr>)))"

text \<open>\<^verbatim>\<open>upsert({where: {userId}, update, create})\<close>: an existing row has the five flags of
  \<open>update\<close> written and \<^verbatim>\<open>updatedAt\<close> bumped; otherwise \<open>create\<close> is inserted.\<close>

definition accessibilitySettings_upsert ::
  "database \<Rightarrow> string \<Rightarrow> bool AccessibilitySettings \<Rightarrow> string \<times> bool AccessibilitySettings
     \<Rightarrow> exn + (AccessibilitySettingsResponse \<times> database)" where
  "accessibilitySettings_upsert db wh upd cr =
     (case accessibilitySettings_findUnique db wh of
        Some r \<Rightarrow>
          (let r' = r\<lparr>voiceNavigation := voiceNavigation upd, screenReader := screenReader upd,
                      highContrast := highContrast upd, largeText := largeText upd,
                      keyboardNav := keyboardNav upd, updatedAt := clock db\<rparr>
           in Inr (r', db\<lparr>accessibilitySettings :=
                            map (\<lambda>x. if userId x = wh then r' else x) (accessibilitySettings db)\<rparr>))
      | None \<Rightarrow> accessibilitySettings_create db (fst cr) (snd cr))"

section \<open>The route handlers (src/app/api/accessibility/route.ts)\<close>

text \<open>
  The served handlers are those of route.ts; put.ts beside it is a copy of \<^verbatim>\<open>PUT\<close> without
  the provisioning of the user row and is not a route file.

  A \<^verbatim>\<open>NextResponse.json(body, {status})\<close>. The 500 body is the fixed text in production
  and the caught error (its message) otherwise.
\<close>

datatype NextResponse =
    Json200 AccessibilitySettingsResponse
  | Json401 string
  | Json400 string "ZodIssue list"
  | Json500 "string + exn"

fun status :: "NextResponse \<Rightarrow> nat" where
  "status (Json200 _) = 200"
| "status (Json401 _) = 401"
| "status (Json400 _ _) = 400"
| "status (Json500 _) = 500"

definition internal_error :: "bool \<Rightarrow> exn \<Rightarrow> NextResponse" where
  "internal_error production e =
     Json500 (if production then Inl ''Internal server error'' else Inr e)"

definition DEFAULT_FLAGS :: "bool AccessibilitySettings" where
  "DEFAULT_FLAGS =
     \<lparr>voiceNavigation = False, screenReader = False, highContrast = False,
      largeText = False, keyboardNav = False\<rparr>"

text \<open>\<^verbatim>\<open>GET\<close>. \<open>production\<close> is \<^verbatim>\<open>NODE_ENV === 'production'\<close>; \<open>x_user_id\<close> is
  \<^verbatim>\<open>req.headers.get('x-user-id')\<close>. The result is the response and the database afterwards.\<close>

definition GET :: "bool \<Rightarrow> string option \<Rightarrow> database \<Rightarrow> NextResponse \<times> database" where
  "GET production x_user_id db =
     (let userId = or_else x_user_id ''demo-user-1'' in
      if userId = [] then (Json401 ''Unauthorized: No user ID provided'', db)
      else
        (case (case user_findUnique db userId of
                 None \<Rightarrow> user_create db userId (userId @ ''@local'')
               | Some _ \<Rightarrow> Inr db) of
           Inl e \<Rightarrow> (internal_error production e, db)
         | Inr db1 \<Rightarrow>
             (case accessibilitySettings_findUnique db1 userId of
                Some settings \<Rightarrow> (Json200 settings, db1)
              | None \<Rightarrow>
                  (case accessibilitySettings_create db1 userId DEFAULT_FLAGS of
                     Inl e \<Rightarrow> (internal_error production e, db1)
                   | Inr (settings, db2) \<Rightarrow> (Json200 settings, db2)))))"

text \<open>\<^verbatim>\<open>PUT\<close>. \<open>body\<close> is the outcome of \<^verbatim>\<open>req.json()\<close>: \<open>None\<close> when the request body is not
  JSON and a SyntaxError is thrown. The user row is provisioned before the body is read.\<close>

definition PUT ::
  "bool \<Rightarrow> string option \<Rightarrow> jsval option \<Rightarrow> database \<Rightarrow> NextResponse \<times> database" where
  "PUT production x_user_id body db =
     (let userId = or_else x_user_id ''demo-user-1'' in
      if userId = [] then (Json401 ''Unauthorized: No user ID provided'', db)
      else
        (case (case user_findUnique db userId of
                 None \<Rightarrow> user_create db userId (userId @ ''@local'')
               | Some _ \<Rightarrow> Inr db) of
           Inl e \<Rightarrow> (internal_error production e, db)
         | Inr db1 \<Rightarrow>
             (case body of
                None \<Rightarrow> (internal_error production SyntaxError, db1)
              | Some b \<Rightarrow>
                  (case AccessibilitySettingsSchema b of
                     Inl issues \<Rightarrow> (Json400 ''Validation error'' issues, db1)
                   | Inr validatedData \<Rightarrow>
                       (case accessibilitySettings_upsert db1 userId validatedData
                               (userId, validatedData) of
                          Inl e \<Rightarrow> (internal_error production e, db1)
                        | Inr (updatedSettings, db2) \<Rightarrow> (Json200 updatedSettings, db2))))))"

text \<open>The states the program can be in: a freshly migrated database, then any sequence of
  requests, with time passing in between.\<close>

definition empty_database :: "nat \<Rightarrow> database" where
  "empty_database t = \<lparr>user = [], accessibilitySettings = [], cuid_counter = 0, clock = t\<rparr>"

definition advance :: "nat \<Rightarrow> database \<Rightarrow> database" where
  "advance d db = db\<lparr>clock := clock db + d\<rparr>"

inductive reachable :: "database \<Rightarrow> bool" where
  initial: "reachable (empty_database t)"
| tick: "reachable db \<Longrightarrow> reachable (advance d db)"
| get: "reachable db \<Longrightarrow> reachable (snd (GET production x_user_id db))"
| put: "reachable db \<Longrightarrow> reachable (snd (PUT production x_user_id body db))"

text \<open>The invariant of the reachable states that the handlers rely on: every user row was
  provisioned by a handler, and no row is dated in the future.\<close>

definition db_inv :: "database \<Rightarrow> bool" where
  "db_inv db \<longleftrightarrow>
     list_all (\<lambda>u. email u = user_id u @ ''@local'') (user db) \<and>
     list_all (\<lambda>r. updatedAt r \<le> clock db) (accessibilitySettings db)"

text \<open>The five flags of a stored row, and the request body that carries five booleans.\<close>

definition flags_of :: "AccessibilitySettingsResponse \<Rightarrow> bool AccessibilitySettings" where
  "flags_of r =
     \<lparr>voiceNavigation = voiceNavigation r, screenReader = screenReader r,
      highContrast = highContrast r, largeText = largeText r, keyboardNav = keyboardNav r\<rparr>"

definition payload :: "bool AccessibilitySettings \<Rightarrow> jsval" where
  "payload P =
     JObject [(''voiceNavigation'', JBool (voiceNavigation P)),
              (''screenReader'', JBool (screenReader P)),
              (''highContrast'', JBool (highContrast P)),
              (''largeText'', JBool (largeText P)),
              (''keyboardNav'', JBool (keyboardNav P))]"

definition flag_names :: "string list" where
  "flag_names = [''voiceNavigation'', ''screenReader'', ''highContrast'', ''largeText'', ''keyboardNav'']"

fun is_boolean :: "jsval \<Rightarrow> bool" where
  "is_boolean (JBool _) = True"
| "is_boolean _ = False"

section \<open>The global effect applier (src/hooks/use-apply-accessibility.ts)\<close>

text \<open>\<^verbatim>\<open>document.documentElement\<close>: its class token list and its attributes, each in
  its own order.\<close>

record Element =
  classList :: "string list"
  attributes :: "(string \<times> string) list"

text \<open>The token list's \<^verbatim>\<open>add\<close> and \<^verbatim>\<open>remove\<close>, and the attribute list's set and remove: a
  token or attribute that is already there keeps its place, a new one goes last.\<close>

definition token_add :: "string \<Rightarrow> string list \<Rightarrow> string list" where
  "token_add tok ts = (if tok \<in> set ts then ts else ts @ [tok])"

definition token_remove :: "string \<Rightarrow> string list \<Rightarrow> string list" where
  "token_remove tok ts = filter (\<lambda>t. t \<noteq> tok) ts"

definition attr_set :: "string \<Rightarrow> string \<Rightarrow> (string \<times> string) list \<Rightarrow> (string \<times> string) list" where
  "attr_set name val as =
     (if name \<in> fst ` set as
      then map (\<lambda>(k, v). if k = name then (k, val) else (k, v)) as
      else as @ [(name, val)])"

definition attr_remove :: "string \<Rightarrow> (string \<times> string) list \<Rightarrow> (string \<times> string) list" where
  "attr_remove name as = filter (\<lambda>(k, v). k \<noteq> name) as"

definition classList_add :: "string \<Rightarrow> Element \<Rightarrow> Element" where
  "classList_add tok root = root\<lparr>classList := token_add tok (classList root)\<rparr>"

definition classList_remove :: "string \<Rightarrow> Element \<Rightarrow> Element" where
  "classList_remove tok root = root\<lparr>classList := token_remove tok (classList root)\<rparr>"

definition setAttribute :: "string \<Rightarrow> string \<Rightarrow> Element \<Rightarrow> Element" where
  "setAttribute name val root = root\<lparr>attributes := attr_set name val (attributes root)\<rparr>"

definition removeAttribute :: "string \<Rightarrow> Element \<Rightarrow> Element" where
  "removeAttribute name root = root\<lparr>attributes := attr_remove name (attributes root)\<rparr>"

definition hasAttribute :: "string \<Rightarrow> Element \<Rightarrow> bool" where
  "hasAttribute name root \<longleftrightarrow> name \<in> fst ` set (attributes root)"

definition classList_contains :: "string \<Rightarrow> Element \<Rightarrow> bool" where
  "classList_contains tok root \<longleftrightarrow> tok \<in> set (classList root)"

text \<open>The body of the effect, statement by statement.\<close>

definition useApplyAccessibilitySettings :: "bool AccessibilitySettings \<Rightarrow> Element \<Rightarrow> Element" where
  "useApplyAccessibilitySettings settings root =
     (let root1 = (if highContrast settings then classList_add ''high-contrast'' root
                   else classList_remove ''high-contrast'' root);
          root2 = (if largeText settings then classList_add ''large-text'' root1
                   else classList_remove ''large-text'' root1);
          root3 = (if keyboardNav settings
                   then setAttribute ''data-keyboard-nav'' ''true'' (classList_add ''keyboard-nav'' root2)
                   else classList_remove ''keyboard-nav'' (removeAttribute ''data-keyboard-nav'' root2));
          root4 = (if screenReader settings then setAttribute ''data-screen-reader'' ''true'' root3
                   else removeAttribute ''data-screen-reader'' root3);
          root5 = (if voiceNavigation settings then setAttribute ''data-voice-nav'' ''true'' root4
                   else removeAttribute ''data-voice-nav'' root4)
      in root5)"

section \<open>The client state hook (src/unnamed/part_004, \<^verbatim>\<open>useAccessibility\<close>)\<close>

text \<open>Number to string, as a template literal does it.\<close>

function show_nat :: "nat \<Rightarrow> string" where
  "show_nat n =
     (if n < 10 then [''0123456789'' ! n]
      else show_nat (n div 10) @ [''0123456789'' ! (n mod 10)])"
  by pat_completeness auto
termination
  by (relation "measure id") auto

declare show_nat.simps [simp del]

definition show_int :: "int \<Rightarrow> string" where
  "show_int i = (if i < 0 then ''-'' @ show_nat (nat (- i)) else show_nat (nat i))"

fun join :: "string list \<Rightarrow> string" where
  "join [] = []"
| "join [x] = x"
| "join (x # y # zs) = x @ '','' @ join (y # zs)"

text \<open>JavaScript's \<^verbatim>\<open>String(v)\<close>, which a template literal applies to \<^verbatim>\<open>${v}\<close>.\<close>

fun ToString :: "jsval \<Rightarrow> string" where
  "ToString JUndefined = ''undefined''"
| "ToString JNull = ''null''"
| "ToString (JBool b) = (if b then ''true'' else ''false'')"
| "ToString (JNumber n) = show_int n"
| "ToString (JString s) = s"
| "ToString (JArray xs) =
     join (map (\<lambda>x. if x = JNull \<or> x = JUndefined then [] else ToString x) xs)"
| "ToString (JObject _) = ''[object Object]''"

text \<open>What \<^verbatim>\<open>await fetch(...)\<close> settles to: a rejection, or a response with its status line
  and the outcome of \<^verbatim>\<open>response.json()\<close>.\<close>

record FetchResponse =
  resp_status :: nat
  statusText :: string
  resp_json :: "thrown + jsval"

definition ok :: "FetchResponse \<Rightarrow> bool" where
  "ok response \<longleftrightarrow> 200 \<le> resp_status response \<and> resp_status response \<le> 299"

record UseAccessibilityReturn =
  settings :: "jsval AccessibilitySettings"
  isLoading :: bool
  error :: "string option"

definition DEFAULT_SETTINGS :: "jsval AccessibilitySettings" where
  "DEFAULT_SETTINGS =
     \<lparr>voiceNavigation = JBool False, screenReader = JBool False, highContrast = JBool False,
      largeText = JBool False, keyboardNav = JBool False\<rparr>"

text \<open>The hook's state at mount.\<close>

definition initial_state :: UseAccessibilityReturn where
  "initial_state = \<lparr>settings = DEFAULT_SETTINGS, isLoading = True, error = None\<rparr>"

text \<open>The message for a response that is not ok: the status text, replaced by the body's
  \<^verbatim>\<open>error\<close> property when the body parses and both it and the property are truthy.\<close>

definition response_msg :: "FetchResponse \<Rightarrow> string" where
  "response_msg response =
     (case resp_json response of
        Inl _ \<Rightarrow> statusText response
      | Inr err \<Rightarrow>
          (if truthy err
           then (case get_property err ''error'' of
                   Inr e \<Rightarrow> if truthy e then ToString e else statusText response
                 | Inl _ \<Rightarrow> statusText response)
           else statusText response))"

text \<open>The \<^verbatim>\<open>try\<close> block of \<^verbatim>\<open>fetchSettings\<close> after \<^verbatim>\<open>setIsLoading(true)\<close>: what it throws, or
  the object it passes to \<^verbatim>\<open>setSettings\<close>.\<close>

definition fetchSettings_try :: "thrown + FetchResponse \<Rightarrow> thrown + jsval AccessibilitySettings" where
  "fetchSettings_try fetched =
     (case fetched of
        Inl e \<Rightarrow> Inl e
      | Inr response \<Rightarrow>
          if \<not> ok response
          then Inl (Error (''Failed to fetch settings: '' @ show_nat (resp_status response)
                           @ '' '' @ response_msg response))
          else
            (case resp_json response of
               Inl e \<Rightarrow> Inl e
             | Inr data \<Rightarrow>
                 (case get_property data ''voiceNavigation'' of Inl e \<Rightarrow> Inl e | Inr vn \<Rightarrow>
                  case get_property data ''screenReader'' of Inl e \<Rightarrow> Inl e | Inr sr \<Rightarrow>
                  case get_property data ''highContrast'' of Inl e \<Rightarrow> Inl e | Inr hc \<Rightarrow>
                  case get_property data ''largeText'' of Inl e \<Rightarrow> Inl e | Inr lt \<Rightarrow>
                  case get_property data ''keyboardNav'' of Inl e \<Rightarrow> Inl e | Inr kn \<Rightarrow>
                    Inr \<lparr>voiceNavigation = vn, screenReader = sr, highContrast = hc,
                         largeText = lt, keyboardNav = kn\<rparr>)))"

text \<open>\<^verbatim>\<open>fetchSettings\<close>, from the state it starts in and what the fetch settles to, to the
  state after \<^verbatim>\<open>finally\<close>.\<close>

definition fetchSettings :: "UseAccessibilityReturn \<Rightarrow> thrown + FetchResponse \<Rightarrow> UseAccessibilityReturn" where
  "fetchSettings st fetched =
     (let st1 = st\<lparr>isLoading := True\<rparr>;
          st2 = (case fetchSettings_try fetched of
                   Inr s \<Rightarrow> st1\<lparr>settings := s, error := None\<rparr>
                 | Inl err \<Rightarrow>
                     st1\<lparr>error := Some (case err of Error m \<Rightarrow> m
                                           | NonError \<Rightarrow> ''Unknown error occurred''),
                         settings := DEFAULT_SETTINGS\<rparr>)
      in st2\<lparr>isLoading := False\<rparr>)"

text \<open>The request \<^verbatim>\<open>persistSettings\<close> issues. The body is \<^verbatim>\<open>JSON.stringify(data)\<close>, given as the
  value the server parses from it: a property whose value is \<^verbatim>\<open>undefined\<close> is not written.\<close>

record FetchRequest =
  http_method :: string
  header_x_user_id :: string
  req_body :: jsval

definition JSON_stringify :: "jsval AccessibilitySettings \<Rightarrow> jsval" where
  "JSON_stringify data =
     JObject (filter (\<lambda>(k, v). v \<noteq> JUndefined)
       [(''voiceNavigation'', voiceNavigation data), (''screenReader'', screenReader data),
        (''highContrast'', highContrast data), (''largeText'', largeText data),
        (''keyboardNav'', keyboardNav data)])"

definition persistSettings_request :: "jsval AccessibilitySettings \<Rightarrow> string option \<Rightarrow> FetchRequest" where
  "persistSettings_request data userId' =
     \<lparr>http_method = ''PUT'', header_x_user_id = or_else userId' ''demo-user-1'',
      req_body = JSON_stringify data\<rparr>"

text \<open>\<^verbatim>\<open>persistSettings\<close> after its \<^verbatim>\<open>await fetch(...)\<close>, on whatever the state is by then.\<close>

definition persistSettings_settled ::
  "UseAccessibilityReturn \<Rightarrow> thrown + FetchResponse \<Rightarrow> UseAccessibilityReturn" where
  "persistSettings_settled st fetched =
     (case (case fetched of
              Inl e \<Rightarrow> Inl e
            | Inr response \<Rightarrow>
                if \<not> ok response
                then Inl (Error (''Failed to save settings: '' @ show_nat (resp_status response)
                                 @ '' '' @ response_msg response))
                else Inr ()) of
        Inr _ \<Rightarrow> st\<lparr>error := None\<rparr>
      | Inl err \<Rightarrow>
          st\<lparr>error := Some (case err of Error m \<Rightarrow> m | NonError \<Rightarrow> ''Failed to save settings'')\<rparr>)"

text \<open>\<^verbatim>\<open>keyof AccessibilitySettings\<close> and the computed-key spread \<^verbatim>\<open>{...settings, [key]: value}\<close>.\<close>

datatype key = K_voiceNavigation | K_screenReader | K_highContrast | K_largeText | K_keyboardNav

fun spread_key :: "'v AccessibilitySettings \<Rightarrow> key \<Rightarrow> 'v \<Rightarrow> 'v AccessibilitySettings" where
  "spread_key s K_voiceNavigation v = s\<lparr>voiceNavigation := v\<rparr>"
| "spread_key s K_screenReader v = s\<lparr>screenReader := v\<rparr>"
| "spread_key s K_highContrast v = s\<lparr>highContrast := v\<rparr>"
| "spread_key s K_largeText v = s\<lparr>largeText := v\<rparr>"
| "spread_key s K_keyboardNav v = s\<lparr>keyboardNav := v\<rparr>"

fun read_key :: "'v AccessibilitySettings \<Rightarrow> key \<Rightarrow> 'v" where
  "read_key s K_voiceNavigation = voiceNavigation s"
| "read_key s K_screenReader = screenReader s"
| "read_key s K_highContrast = highContrast s"
| "read_key s K_largeText = largeText s"
| "read_key s K_keyboardNav = keyboardNav s"

fun key_name :: "key \<Rightarrow> string" where
  "key_name K_voiceNavigation = ''voiceNavigation''"
| "key_name K_screenReader = ''screenReader''"
| "key_name K_highContrast = ''highContrast''"
| "key_name K_largeText = ''largeText''"
| "key_name K_keyboardNav = ''keyboardNav''"

text \<open>\<^verbatim>\<open>updateSetting(key, value)\<close> up to the point where \<^verbatim>\<open>persistSettings\<close> awaits: the state
  after \<^verbatim>\<open>setSettings(newSettings)\<close> and the request sent.\<close>

definition updateSetting ::
  "UseAccessibilityReturn \<Rightarrow> string option \<Rightarrow> key \<Rightarrow> bool \<Rightarrow> UseAccessibilityReturn \<times> FetchRequest" where
  "updateSetting st userId' k val =
     (let newSettings = spread_key (settings st) k (JBool val)
      in (st\<lparr>settings := newSettings\<rparr>, persistSettings_request newSettings userId'))"

text \<open>Every attribute named \<open>n\<close> has the value \<open>v\<close>.\<close>

definition attr_all :: "string \<Rightarrow> string \<Rightarrow> (string \<times> string) list \<Rightarrow> bool" where
  "attr_all n v as \<longleftrightarrow> list_all (\<lambda>p. fst p \<noteq> n \<or> snd p = v) as"

text \<open>\<^verbatim>\<open>data.k\<close> where it does not throw, and five booleans as the client holds them.\<close>

definition get_field :: "jsval \<Rightarrow> string \<Rightarrow> jsval" where
  "get_field data k = (case data of JObject kvs \<Rightarrow> property kvs k | _ \<Rightarrow> JUndefined)"

definition booleans :: "bool AccessibilitySettings \<Rightarrow> jsval AccessibilitySettings" where
  "booleans P =
     \<lparr>voiceNavigation = JBool (voiceNavigation P), screenReader = JBool (screenReader P),
      highContrast = JBool (highContrast P), largeText = JBool (largeText P),
      keyboardNav = JBool (keyboardNav P)\<rparr>"


section \<open>Facts about the database operations and the handlers\<close>

lemma or_else_nonempty: "b \<noteq> [] \<Longrightarrow> or_else a b \<noteq> []"
  by (simp add: or_else_def split: option.splits)

lemma find_snoc_None: "find P xs = None \<Longrightarrow> P r \<Longrightarrow> find P (xs @ [r]) = Some r"
  by (induction xs) (auto split: if_splits)

lemma find_snoc_Some: "find P xs = Some y \<Longrightarrow> find P (xs @ [r]) = Some y"
  by (induction xs) (auto split: if_splits)

lemma find_map_replace:
  "find P xs = Some y \<Longrightarrow> P r \<Longrightarrow> find P (map (\<lambda>x. if P x then r else x) xs) = Some r"
  by (induction xs) (auto split: if_splits)

lemma provision_ok:
  assumes "db_inv db"
  shows "\<exists>db1. (case user_findUnique db u of
                  None \<Rightarrow> user_create db u (u @ ''@local'')
                | Some _ \<Rightarrow> Inr db) = Inr db1 \<and>
               db_inv db1 \<and> user_findUnique db1 u \<noteq> None \<and>
               accessibilitySettings db1 = accessibilitySettings db \<and>
               clock db1 = clock db \<and> cuid_counter db1 = cuid_counter db \<and>
               (user_findUnique db u \<noteq> None \<longrightarrow> db1 = db)"
proof (cases "user_findUnique db u")
  case (Some a)
  with assms show ?thesis by simp
next
  case None
  then have no_id: "\<forall>x\<in>set (user db). user_id x \<noteq> u"
    by (auto simp: user_findUnique_def find_None_iff)
  from assms have "\<forall>x\<in>set (user db). email x = user_id x @ ''@local''"
    by (simp add: db_inv_def list_all_iff)
  with no_id have free: "\<not> list_ex (\<lambda>x. user_id x = u \<or> email x = u @ ''@local'') (user db)"
    by (auto simp: list_ex_iff)
  let ?db1 = "db\<lparr>user := user db @ [\<lparr>user_id = u, email = u @ ''@local''\<rparr>]\<rparr>"
  have "user_create db u (u @ ''@local'') = Inr ?db1"
    using free by (simp add: user_create_def)
  moreover have "db_inv ?db1"
    using assms by (simp add: db_inv_def)
  moreover have "user_findUnique ?db1 u \<noteq> None"
    by (auto simp: user_findUnique_def find_None_iff)
  ultimately show ?thesis using None by simp
qed

lemma create_ok:
  assumes "db_inv db" "user_findUnique db u \<noteq> None" "accessibilitySettings_findUnique db u = None"
  shows "\<exists>r db'. accessibilitySettings_create db u d = Inr (r, db') \<and> db_inv db' \<and>
           accessibilitySettings_findUnique db' u = Some r \<and> user db' = user db \<and>
           clock db' = clock db \<and> flags_of r = d \<and> userId r = u \<and>
           id' r = cuid_counter db \<and> createdAt r = clock db \<and> updatedAt r = clock db"
  using assms
  by (simp add: accessibilitySettings_create_def Let_def db_inv_def
      accessibilitySettings_findUnique_def find_snoc_None flags_of_def)

lemma upsert_ok:
  assumes "db_inv db" "user_findUnique db u \<noteq> None"
  shows "\<exists>r db'. accessibilitySettings_upsert db u d (u, d) = Inr (r, db') \<and> db_inv db' \<and>
           accessibilitySettings_findUnique db' u = Some r \<and> user db' = user db \<and>
           clock db' = clock db \<and> flags_of r = d \<and> userId r = u \<and> updatedAt r = clock db \<and>
           (\<forall>r0. accessibilitySettings_findUnique db u = Some r0 \<longrightarrow>
                 id' r = id' r0 \<and> createdAt r = createdAt r0)"
proof (cases "accessibilitySettings_findUnique db u")
  case None
  from create_ok[OF assms None, of d] None show ?thesis
    by (auto simp: accessibilitySettings_upsert_def)
next
  case (Some r0)
  let ?r = "r0\<lparr>voiceNavigation := voiceNavigation d, screenReader := screenReader d,
                highContrast := highContrast d, largeText := largeText d,
                keyboardNav := keyboardNav d, updatedAt := clock db\<rparr>"
  let ?db = "db\<lparr>accessibilitySettings :=
                  map (\<lambda>x. if userId x = u then ?r else x) (accessibilitySettings db)\<rparr>"
  from Some have u0: "userId r0 = u"
    by (auto simp: accessibilitySettings_findUnique_def find_Some_iff)
  have eq: "accessibilitySettings_upsert db u d (u, d) = Inr (?r, ?db)"
    using Some by (simp add: accessibilitySettings_upsert_def Let_def)
  have inv: "db_inv ?db"
    using assms(1) by (auto simp: db_inv_def list_all_iff)
  have fnd: "accessibilitySettings_findUnique ?db u = Some ?r"
    using Some u0 find_map_replace[of "\<lambda>x. userId x = u" "accessibilitySettings db" r0 ?r]
    by (simp add: accessibilitySettings_findUnique_def)
  show ?thesis
    using eq inv fnd Some u0 by (simp add: flags_of_def)
qed

lemma GET_ok:
  assumes "db_inv db" and u: "or_else h ''demo-user-1'' = u"
  shows "\<exists>r db'. GET p h db = (Json200 r, db') \<and> db_inv db' \<and>
           accessibilitySettings_findUnique db' u = Some r \<and> user_findUnique db' u \<noteq> None \<and>
           clock db' = clock db \<and> userId r = u \<and>
           (case accessibilitySettings_findUnique db u of
              Some r0 \<Rightarrow> r = r0
            | None \<Rightarrow> flags_of r = DEFAULT_FLAGS \<and> id' r = cuid_counter db)"
proof -
  have ne: "u \<noteq> []" using or_else_nonempty[of "''demo-user-1''" h] u by simp
  from provision_ok[OF assms(1), of u] obtain db1 where
    p: "(case user_findUnique db u of None \<Rightarrow> user_create db u (u @ ''@local'')
         | Some _ \<Rightarrow> Inr db) = Inr db1"
    and i1: "db_inv db1" and u1: "user_findUnique db1 u \<noteq> None"
    and s1: "accessibilitySettings db1 = accessibilitySettings db"
    and c1: "clock db1 = clock db" and n1: "cuid_counter db1 = cuid_counter db"
    by blast
  have f1: "accessibilitySettings_findUnique db1 u = accessibilitySettings_findUnique db u"
    by (simp add: accessibilitySettings_findUnique_def s1)
  show ?thesis
  proof (cases "accessibilitySettings_findUnique db u")
    case (Some r0)
    then have "userId r0 = u"
      by (auto simp: accessibilitySettings_findUnique_def find_Some_iff)
    with Some p i1 u1 c1 f1 ne u show ?thesis
      by (simp add: GET_def)
  next
    case None
    with f1 have "accessibilitySettings_findUnique db1 u = None" by simp
    from create_ok[OF i1 u1 this, of DEFAULT_FLAGS] obtain r db' where
      "accessibilitySettings_create db1 u DEFAULT_FLAGS = Inr (r, db')" "db_inv db'"
      "accessibilitySettings_findUnique db' u = Some r" "user db' = user db1"
      "clock db' = clock db1" "flags_of r = DEFAULT_FLAGS" "userId r = u"
      "id' r = cuid_counter db1"
      by blast
    with None p u1 c1 n1 f1 ne u show ?thesis
      by (simp add: GET_def user_findUnique_def)
  qed
qed

lemma GET_again:
  assumes "user_findUnique db u \<noteq> None" "accessibilitySettings_findUnique db u = Some r"
    and u: "or_else h ''demo-user-1'' = u"
  shows "GET p h db = (Json200 r, db)"
proof -
  have "u \<noteq> []" using or_else_nonempty[of "''demo-user-1''" h] u by simp
  with assms show ?thesis by (auto simp: GET_def)
qed

lemma PUT_ok:
  assumes "db_inv db" and u: "or_else h ''demo-user-1'' = u"
    and v: "AccessibilitySettingsSchema b = Inr d"
  shows "\<exists>r db'. PUT p h (Some b) db = (Json200 r, db') \<and> db_inv db' \<and>
           accessibilitySettings_findUnique db' u = Some r \<and> user_findUnique db' u \<noteq> None \<and>
           clock db' = clock db \<and> flags_of r = d \<and> userId r = u \<and> updatedAt r = clock db \<and>
           (\<forall>r0. accessibilitySettings_findUnique db u = Some r0 \<longrightarrow>
                 id' r = id' r0 \<and> createdAt r = createdAt r0)"
proof -
  have ne: "u \<noteq> []" using or_else_nonempty[of "''demo-user-1''" h] u by simp
  from provision_ok[OF assms(1), of u] obtain db1 where
    p: "(case user_findUnique db u of None \<Rightarrow> user_create db u (u @ ''@local'')
         | Some _ \<Rightarrow> Inr db) = Inr db1"
    and i1: "db_inv db1" and u1: "user_findUnique db1 u \<noteq> None"
    and s1: "accessibilitySettings db1 = accessibilitySettings db"
    and c1: "clock db1 = clock db"
    by blast
  have f1: "accessibilitySettings_findUnique db1 u = accessibilitySettings_findUnique db u"
    by (simp add: accessibilitySettings_findUnique_def s1)
  from upsert_ok[OF i1 u1, of d] obtain r db' where
    "accessibilitySettings_upsert db1 u d (u, d) = Inr (r, db')" "db_inv db'"
    "accessibilitySettings_findUnique db' u = Some r" "user db' = user db1"
    "clock db' = clock db1" "flags_of r = d" "userId r = u" "updatedAt r = clock db1"
    "\<forall>r0. accessibilitySettings_findUnique db1 u = Some r0 \<longrightarrow>
                 id' r = id' r0 \<and> createdAt r = createdAt r0"
    by blast
  with p u1 c1 f1 ne u v show ?thesis
    by (simp add: PUT_def user_findUnique_def)
qed

lemma PUT_invalid:
  assumes "db_inv db" and v: "AccessibilitySettingsSchema b = Inl issues"
  shows "\<exists>db'. PUT p h (Some b) db = (Json400 ''Validation error'' issues, db') \<and> db_inv db' \<and>
           accessibilitySettings db' = accessibilitySettings db"
proof -
  let ?u = "or_else h ''demo-user-1''"
  have ne: "?u \<noteq> []" by (simp add: or_else_nonempty)
  from provision_ok[OF assms(1), of ?u] obtain db1 where
    "(case user_findUnique db ?u of None \<Rightarrow> user_create db ?u (?u @ ''@local'')
         | Some _ \<Rightarrow> Inr db) = Inr db1"
    "db_inv db1" "accessibilitySettings db1 = accessibilitySettings db"
    by blast
  with ne v show ?thesis by (simp add: PUT_def)
qed

lemma PUT_not_json:
  assumes "db_inv db"
  shows "\<exists>db'. PUT p h None db = (internal_error p SyntaxError, db') \<and> db_inv db' \<and>
           accessibilitySettings db' = accessibilitySettings db"
proof -
  let ?u = "or_else h ''demo-user-1''"
  have ne: "?u \<noteq> []" by (simp add: or_else_nonempty)
  from provision_ok[OF assms(1), of ?u] obtain db1 where
    "(case user_findUnique db ?u of None \<Rightarrow> user_create db ?u (?u @ ''@local'')
         | Some _ \<Rightarrow> Inr db) = Inr db1"
    "db_inv db1" "accessibilitySettings db1 = accessibilitySettings db"
    by blast
  with ne show ?thesis by (simp add: PUT_def)
qed

lemma GET_preserves_inv: "db_inv db \<Longrightarrow> db_inv (snd (GET p h db))"
  using GET_ok[where db=db and h=h and p=p, OF _ refl] by auto

lemma PUT_preserves_inv: "db_inv db \<Longrightarrow> db_inv (snd (PUT p h body db))"
proof (cases body)
  case None
  assume "db_inv db"
  with None PUT_not_json[where db=db and p=p and h=h] show ?thesis by auto
next
  case (Some b)
  assume i: "db_inv db"
  show ?thesis
  proof (cases "AccessibilitySettingsSchema b")
    case (Inl issues)
    with Some PUT_invalid[OF i Inl, where p=p and h=h] show ?thesis by auto
  next
    case (Inr d)
    with Some PUT_ok[OF i refl Inr, where h=h and p=p] show ?thesis by auto
  qed
qed

lemma reachable_inv: "reachable db \<Longrightarrow> db_inv db"
proof (induction rule: reachable.induct)
  case (initial t)
  show ?case by (simp add: db_inv_def empty_database_def)
next
  case (tick db d)
  then show ?case by (auto simp: db_inv_def advance_def list_all_iff)
next
  case (get db production x_user_id)
  then show ?case by (simp add: GET_preserves_inv)
next
  case (put db production x_user_id body)
  then show ?case by (simp add: PUT_preserves_inv)
qed

text \<open>
  Why the theorems below speak of reachable states. A database filled by other means can
  hold a user row whose e-mail is \<^verbatim>\<open>u@local\<close> under another id; provisioning the user \<open>u\<close>
  then fails on the unique index and the handler answers 500 before it reads any
  settings. The handlers themselves never write such a row.
\<close>

lemma GET_foreign_email:
  "GET True (Some ''alice'')
     ((empty_database 0)\<lparr>user := [\<lparr>user_id = ''bob'', email = ''alice@local''\<rparr>]\<rparr>)
   = (Json500 (Inl ''Internal server error''),
      (empty_database 0)\<lparr>user := [\<lparr>user_id = ''bob'', email = ''alice@local''\<rparr>]\<rparr>)"
  by (simp add: GET_def or_else_def user_findUnique_def user_create_def internal_error_def
      empty_database_def)

section \<open>Facts about the schema\<close>

lemma shape_key_cases:
  "shape_key kvs k =
     (case property kvs k of
        JUndefined \<Rightarrow> Inr False
      | JBool b \<Rightarrow> Inr b
      | v \<Rightarrow> Inl [invalid_type ''boolean'' v [k]])"
  by (simp add: shape_key_def z_default_def z_boolean_def split: jsval.splits)

lemma shape_key_good:
  "property kvs k = JUndefined \<or> is_boolean (property kvs k) \<Longrightarrow>
   shape_key kvs k = Inr (property kvs k = JBool True)"
  by (cases "property kvs k") (auto simp: shape_key_cases)

lemma shape_key_bad:
  "property kvs k \<noteq> JUndefined \<Longrightarrow> \<not> is_boolean (property kvs k) \<Longrightarrow>
   shape_key kvs k = Inl [invalid_type ''boolean'' (property kvs k) [k]]"
  by (cases "property kvs k") (auto simp: shape_key_cases)

lemma schema_accepts:
  assumes "\<forall>k\<in>set flag_names. property kvs k = JUndefined \<or> is_boolean (property kvs k)"
  shows "AccessibilitySettingsSchema (JObject kvs) =
           Inr \<lparr>voiceNavigation = (property kvs ''voiceNavigation'' = JBool True),
                screenReader = (property kvs ''screenReader'' = JBool True),
                highContrast = (property kvs ''highContrast'' = JBool True),
                largeText = (property kvs ''largeText'' = JBool True),
                keyboardNav = (property kvs ''keyboardNav'' = JBool True)\<rparr>"
  using assms
  by (simp add: AccessibilitySettingsSchema_def flag_names_def shape_key_good issues_of_def value_of_def)

lemma schema_rejects:
  assumes "k \<in> set flag_names" "property kvs k \<noteq> JUndefined" "\<not> is_boolean (property kvs k)"
  shows "\<exists>issues. AccessibilitySettingsSchema (JObject kvs) = Inl issues \<and>
           invalid_type ''boolean'' (property kvs k) [k] \<in> set issues"
proof -
  have "invalid_type ''boolean'' (property kvs k) [k] \<in> set (issues_of (shape_key kvs k))"
    using assms by (simp add: shape_key_bad issues_of_def)
  with assms(1) show ?thesis
    by (auto simp: AccessibilitySettingsSchema_def flag_names_def Let_def)
qed

lemma schema_payload: "AccessibilitySettingsSchema (payload P) = Inr P"
  by (simp add: payload_def AccessibilitySettingsSchema_def shape_key_cases property_def
      issues_of_def value_of_def)

lemmas handler_defs =
  GET_def PUT_def or_else_def user_findUnique_def user_create_def
  accessibilitySettings_findUnique_def accessibilitySettings_create_def
  accessibilitySettings_upsert_def DEFAULT_FLAGS_def empty_database_def advance_def
  internal_error_def Let_def

lemmas schema_defs =
  AccessibilitySettingsSchema_def shape_key_def z_default_def z_boolean_def property_def
  issues_of_def value_of_def invalid_type_def

section \<open>Validation of the request body\<close>

text \<open>
  Claim C1, as the code has it. In every reachable state, a \<^verbatim>\<open>PUT\<close> whose body is an object
  with a value that is present but not a boolean (a string, a number, \<^verbatim>\<open>null\<close>, an array
  or an object) under one of the five flag names is answered with status 400, body
  \<^verbatim>\<open>{error: 'Validation error', details}\<close>, and the details hold an issue whose path is that
  field, whose expected type is \<^verbatim>\<open>boolean\<close> and whose received type is the value's type.
  An absent field is not an error: a body whose five fields are each a boolean or absent
  is answered with status 200, whatever the combination of values.
\<close>

theorem PUT_validation:
  assumes "reachable db"
  shows "(k \<in> set flag_names \<and> property kvs k \<noteq> JUndefined \<and> \<not> is_boolean (property kvs k) \<longrightarrow>
            (\<exists>issues. fst (PUT production h (Some (JObject kvs)) db) = Json400 ''Validation error'' issues \<and>
               status (fst (PUT production h (Some (JObject kvs)) db)) = 400 \<and>
               \<lparr>code = ''invalid_type'', expected = ''boolean'',
                received = getParsedType (property kvs k), path = [k],
                message = ''Expected boolean, received '' @ getParsedType (property kvs k)\<rparr>
                 \<in> set issues)) \<and>
         ((\<forall>k\<in>set flag_names. property kvs k = JUndefined \<or> is_boolean (property kvs k)) \<longrightarrow>
            status (fst (PUT production h (Some (JObject kvs)) db)) = 200)"
proof (intro conjI impI)
  assume bad: "k \<in> set flag_names \<and> property kvs k \<noteq> JUndefined \<and> \<not> is_boolean (property kvs k)"
  then obtain issues where
    i: "AccessibilitySettingsSchema (JObject kvs) = Inl issues"
       "invalid_type ''boolean'' (property kvs k) [k] \<in> set issues"
    using schema_rejects by blast
  from PUT_invalid[OF reachable_inv[OF assms] i(1), where p=production and h=h]
  have "fst (PUT production h (Some (JObject kvs)) db) = Json400 ''Validation error'' issues"
    by auto
  with i(2) bad
  show "\<exists>issues. fst (PUT production h (Some (JObject kvs)) db) = Json400 ''Validation error'' issues \<and>
               status (fst (PUT production h (Some (JObject kvs)) db)) = 400 \<and>
               \<lparr>code = ''invalid_type'', expected = ''boolean'',
                received = getParsedType (property kvs k), path = [k],
                message = ''Expected boolean, received '' @ getParsedType (property kvs k)\<rparr>
                 \<in> set issues"
    by (auto simp: invalid_type_def)
next
  assume "\<forall>k\<in>set flag_names. property kvs k = JUndefined \<or> is_boolean (property kvs k)"
  from PUT_ok[OF reachable_inv[OF assms] refl schema_accepts[OF this], where p=production and h=h]
  show "status (fst (PUT production h (Some (JObject kvs)) db)) = 200"
    by auto
qed

text \<open>The theorem at two bodies sent to a fresh database: a string under \<^verbatim>\<open>highContrast\<close> is
  rejected with the issue naming it, and the all-false payload is accepted.\<close>

theorem PUT_validation_witness:
  "reachable (empty_database 0) \<and>
   (\<exists>issues.
      fst (PUT True (Some ''u1'') (Some (JObject [(''highContrast'', JString ''yes'')])) (empty_database 0))
        = Json400 ''Validation error'' issues \<and>
      status (fst (PUT True (Some ''u1'') (Some (JObject [(''highContrast'', JString ''yes'')]))
        (empty_database 0))) = 400 \<and>
      \<lparr>code = ''invalid_type'', expected = ''boolean'', received = ''string'',
        path = [''highContrast''], message = ''Expected boolean, received string''\<rparr> \<in> set issues) \<and>
   status (fst (PUT True (Some ''u1'') (Some (payload DEFAULT_FLAGS)) (empty_database 0))) = 200"
proof -
  have r: "reachable (empty_database 0)" by (rule reachable.initial)
  from PUT_validation[OF r, where production=True and h="Some ''u1''" and k="''highContrast''"
      and kvs="[(''highContrast'', JString ''yes'')]"]
  have a: "\<exists>issues.
      fst (PUT True (Some ''u1'') (Some (JObject [(''highContrast'', JString ''yes'')])) (empty_database 0))
        = Json400 ''Validation error'' issues \<and>
      status (fst (PUT True (Some ''u1'') (Some (JObject [(''highContrast'', JString ''yes'')]))
        (empty_database 0))) = 400 \<and>
      \<lparr>code = ''invalid_type'', expected = ''boolean'', received = ''string'',
        path = [''highContrast''], message = ''Expected boolean, received string''\<rparr> \<in> set issues"
    by (simp add: flag_names_def property_def)
  from PUT_validation[OF r, where production=True and h="Some ''u1''" and
      kvs="[(''voiceNavigation'', JBool False), (''screenReader'', JBool False),
      (''highContrast'', JBool False), (''largeText'', JBool False), (''keyboardNav'', JBool False)]"]
  have b: "status (fst (PUT True (Some ''u1'') (Some (payload DEFAULT_FLAGS)) (empty_database 0))) = 200"
    by (simp add: payload_def DEFAULT_FLAGS_def flag_names_def property_def)
  from r a b show ?thesis by blast
qed

text \<open>Claim C1 as the specification words it fails: a body without \<^verbatim>\<open>voiceNavigation\<close> is
  answered with status 200, not 400.\<close>

theorem PUT_missing_field_accepted:
  "''voiceNavigation'' \<notin> fst ` set [(''screenReader'', JBool False), (''highContrast'', JBool True),
                                       (''largeText'', JBool False), (''keyboardNav'', JBool False)] \<and>
   status (fst (PUT True (Some ''u1'')
     (Some (JObject [(''screenReader'', JBool False), (''highContrast'', JBool True),
                     (''largeText'', JBool False), (''keyboardNav'', JBool False)]))
     (empty_database 0))) = 200"
  by (simp add: handler_defs schema_defs)

text \<open>
  Claim C9. In every reachable state, a \<^verbatim>\<open>PUT\<close> whose body is an object in which each of
  the five flag fields is either absent or a boolean is answered with status 200; the row
  returned is the row stored for the caller afterwards; each absent flag is stored as
  false and each present flag as sent, whatever the row held before.
\<close>

theorem PUT_omitted_fields:
  assumes "reachable db"
    and "\<forall>k\<in>set flag_names. property kvs k = JUndefined \<or> is_boolean (property kvs k)"
  shows "\<exists>r db1.
           PUT production h (Some (JObject kvs)) db = (Json200 r, db1) \<and>
           accessibilitySettings_findUnique db1 (or_else h ''demo-user-1'') = Some r \<and>
           (\<forall>k. property kvs (key_name k) = JUndefined \<longrightarrow> read_key (flags_of r) k = False) \<and>
           (\<forall>k b. property kvs (key_name k) = JBool b \<longrightarrow> read_key (flags_of r) k = b)"
proof -
  have inv: "db_inv db" using assms(1) by (rule reachable_inv)
  from PUT_ok[OF inv refl schema_accepts[OF assms(2)], where h=h and p=production]
  obtain r db1 where
    put: "PUT production h (Some (JObject kvs)) db = (Json200 r, db1)"
    and f: "accessibilitySettings_findUnique db1 (or_else h ''demo-user-1'') = Some r"
    and fl: "flags_of r =
       \<lparr>voiceNavigation = (property kvs ''voiceNavigation'' = JBool True),
        screenReader = (property kvs ''screenReader'' = JBool True),
        highContrast = (property kvs ''highContrast'' = JBool True),
        largeText = (property kvs ''largeText'' = JBool True),
        keyboardNav = (property kvs ''keyboardNav'' = JBool True)\<rparr>"
    by blast
  have a: "property kvs (key_name k) = JUndefined \<longrightarrow> read_key (flags_of r) k = False" for k
    by (cases k) (simp_all add: fl)
  have b: "property kvs (key_name k) = JBool b \<longrightarrow> read_key (flags_of r) k = b" for k b
    by (cases k) (simp_all add: fl)
  from put f a b show ?thesis by blast
qed

text \<open>The theorem at a row that holds \<^verbatim>\<open>highContrast = true\<close>: a body with only \<^verbatim>\<open>largeText\<close>
  stores \<^verbatim>\<open>highContrast = false\<close>.\<close>

theorem PUT_omitted_fields_witness:
  "reachable (snd (PUT True (Some ''u1'')
       (Some (JObject [(''highContrast'', JBool True), (''largeText'', JBool True)])) (empty_database 1))) \<and>
   accessibilitySettings_findUnique (snd (PUT True (Some ''u1'')
       (Some (JObject [(''highContrast'', JBool True), (''largeText'', JBool True)])) (empty_database 1))) ''u1''
     = Some \<lparr>voiceNavigation = False, screenReader = False, highContrast = True,
             largeText = True, keyboardNav = False,
             id' = 0, userId = ''u1'', createdAt = 1, updatedAt = 1\<rparr> \<and>
   accessibilitySettings_findUnique (snd (PUT True (Some ''u1'') (Some (JObject [(''largeText'', JBool True)]))
       (snd (PUT True (Some ''u1'')
          (Some (JObject [(''highContrast'', JBool True), (''largeText'', JBool True)])) (empty_database 1))))) ''u1''
     = Some \<lparr>voiceNavigation = False, screenReader = False, highContrast = False,
             largeText = True, keyboardNav = False,
             id' = 0, userId = ''u1'', createdAt = 1, updatedAt = 1\<rparr>"
proof -
  let ?db = "snd (PUT True (Some ''u1'')
       (Some (JObject [(''highContrast'', JBool True), (''largeText'', JBool True)])) (empty_database 1))"
  have r: "reachable ?db"
    by (intro reachable.put reachable.initial)
  have old: "accessibilitySettings_findUnique ?db ''u1''
     = Some \<lparr>voiceNavigation = False, screenReader = False, highContrast = True,
             largeText = True, keyboardNav = False,
             id' = 0, userId = ''u1'', createdAt = 1, updatedAt = 1\<rparr>"
    by (simp add: handler_defs schema_defs)
  have ok: "\<forall>k\<in>set flag_names. property [(''largeText'', JBool True)] k = JUndefined
       \<or> is_boolean (property [(''largeText'', JBool True)] k)"
    by (simp add: flag_names_def property_def)
  from PUT_omitted_fields[OF r ok, where production=True and h="Some ''u1''"]
  obtain r1 db1 where
    "PUT True (Some ''u1'') (Some (JObject [(''largeText'', JBool True)])) ?db = (Json200 r1, db1)"
    "accessibilitySettings_findUnique db1 ''u1'' = Some r1"
    by (auto simp: or_else_def)
  then have "accessibilitySettings_findUnique
      (snd (PUT True (Some ''u1'') (Some (JObject [(''largeText'', JBool True)])) ?db)) ''u1'' = Some r1"
    by simp
  moreover have "accessibilitySettings_findUnique
      (snd (PUT True (Some ''u1'') (Some (JObject [(''largeText'', JBool True)])) ?db)) ''u1''
     = Some \<lparr>voiceNavigation = False, screenReader = False, highContrast = False,
             largeText = True, keyboardNav = False,
             id' = 0, userId = ''u1'', createdAt = 1, updatedAt = 1\<rparr>"
    by (simp add: handler_defs schema_defs)
  ultimately show ?thesis using r old by simp
qed

section \<open>Reading and writing the settings\<close>

text \<open>
  Claim C2. In every reachable state, for every caller and every payload \<open>P\<close> of five
  booleans: the \<^verbatim>\<open>PUT\<close> is answered with status 200, and a \<^verbatim>\<open>GET\<close> by the same caller
  afterwards, however much time \<open>d\<close> has passed, is answered with status 200 and a record
  of that caller whose five flags are exactly \<open>P\<close> and whose \<^verbatim>\<open>updatedAt\<close> is not before
  the \<^verbatim>\<open>updatedAt\<close> of the record the caller had before the write. The read changes
  nothing. The caller is \<open>or_else h ''demo-user-1''\<close>: the header when it is a non-empty
  string.
\<close>

theorem PUT_then_GET:
  assumes "reachable db"
  shows "\<exists>r1 db1 r2.
           PUT production h (Some (payload P)) db = (Json200 r1, db1) \<and>
           GET production' h (advance d db1) = (Json200 r2, advance d db1) \<and>
           userId r2 = or_else h ''demo-user-1'' \<and>
           flags_of r2 = P \<and>
           (\<forall>r0. accessibilitySettings_findUnique db (or_else h ''demo-user-1'') = Some r0 \<longrightarrow>
                  updatedAt r0 \<le> updatedAt r2)"
proof -
  let ?u = "or_else h ''demo-user-1''"
  have inv: "db_inv db" using assms by (rule reachable_inv)
  from PUT_ok[OF inv refl schema_payload[of P], where h=h and p=production]
  obtain r db1 where
    put: "PUT production h (Some (payload P)) db = (Json200 r, db1)"
    and f: "accessibilitySettings_findUnique db1 ?u = Some r"
    and u: "user_findUnique db1 ?u \<noteq> None"
    and fl: "flags_of r = P" and ui: "userId r = ?u" and t: "updatedAt r = clock db"
    by blast
  have "GET production' h (advance d db1) = (Json200 r, advance d db1)"
    using f u
    by (intro GET_again[where u="?u"])
       (simp_all add: advance_def user_findUnique_def accessibilitySettings_findUnique_def)
  moreover have "\<forall>r0. accessibilitySettings_findUnique db ?u = Some r0 \<longrightarrow> updatedAt r0 \<le> updatedAt r"
  proof (intro allI impI)
    fix r0 assume "accessibilitySettings_findUnique db ?u = Some r0"
    then have "r0 \<in> set (accessibilitySettings db)"
      by (auto simp: accessibilitySettings_findUnique_def find_Some_iff)
    with inv show "updatedAt r0 \<le> updatedAt r"
      by (simp add: t db_inv_def list_all_iff)
  qed
  ultimately show ?thesis using put fl ui by blast
qed

text \<open>The theorem where a record dated 5 is overwritten at time 8 and read at time 10.\<close>

theorem PUT_then_GET_witness:
  "reachable (advance 3 (snd (GET True (Some ''u1'') (empty_database 5)))) \<and>
   accessibilitySettings_findUnique (advance 3 (snd (GET True (Some ''u1'') (empty_database 5)))) ''u1''
     = Some \<lparr>voiceNavigation = False, screenReader = False, highContrast = False,
             largeText = False, keyboardNav = False,
             id' = 0, userId = ''u1'', createdAt = 5, updatedAt = 5\<rparr> \<and>
   fst (GET True (Some ''u1'')
          (advance 2 (snd (PUT True (Some ''u1'')
             (Some (payload \<lparr>voiceNavigation = False, screenReader = False, highContrast = True,
                              largeText = False, keyboardNav = True\<rparr>))
             (advance 3 (snd (GET True (Some ''u1'') (empty_database 5))))))))
     = Json200 \<lparr>voiceNavigation = False, screenReader = False, highContrast = True,
                largeText = False, keyboardNav = True,
                id' = 0, userId = ''u1'', createdAt = 5, updatedAt = 8\<rparr>"
proof -
  let ?db = "advance 3 (snd (GET True (Some ''u1'') (empty_database 5)))"
  let ?P = "\<lparr>voiceNavigation = False, screenReader = False, highContrast = True,
             largeText = False, keyboardNav = True\<rparr>"
  have r: "reachable ?db"
    by (intro reachable.tick reachable.get reachable.initial)
  have old: "accessibilitySettings_findUnique ?db ''u1''
     = Some \<lparr>voiceNavigation = False, screenReader = False, highContrast = False,
             largeText = False, keyboardNav = False,
             id' = 0, userId = ''u1'', createdAt = 5, updatedAt = 5\<rparr>"
    by (simp add: handler_defs)
  from PUT_then_GET[OF r, where production=True and production'=True and h="Some ''u1''"
      and P="?P" and d=2]
  obtain r1 db1 r2 where
    "PUT True (Some ''u1'') (Some (payload ?P)) ?db = (Json200 r1, db1)"
    "GET True (Some ''u1'') (advance 2 db1) = (Json200 r2, advance 2 db1)"
    "flags_of r2 = ?P"
    by blast
  then have "fst (GET True (Some ''u1'') (advance 2 (snd (PUT True (Some ''u1'') (Some (payload ?P)) ?db))))
    = Json200 r2" by simp
  moreover have "fst (GET True (Some ''u1'') (advance 2 (snd (PUT True (Some ''u1'') (Some (payload ?P)) ?db))))
    = Json200 \<lparr>voiceNavigation = False, screenReader = False, highContrast = True,
                largeText = False, keyboardNav = True,
                id' = 0, userId = ''u1'', createdAt = 5, updatedAt = 8\<rparr>"
    by (simp add: handler_defs schema_defs payload_def)
  ultimately show ?thesis using r old by simp
qed

text \<open>
  Claim C3. In every reachable state a \<^verbatim>\<open>GET\<close> is answered with status 200 and a record,
  and that record is the caller's stored row afterwards (never "not found"). When the
  caller had no row, the record has the caller's id and all five flags false, and a second
  \<^verbatim>\<open>GET\<close>, at any later time, returns that same record (same id, same dates) and leaves
  the database as it was: no second row is created.
\<close>

theorem GET_provisions_default:
  assumes "reachable db"
  shows "(\<exists>r. fst (GET production h db) = Json200 r \<and>
              accessibilitySettings_findUnique (snd (GET production h db)) (or_else h ''demo-user-1'') = Some r) \<and>
         (accessibilitySettings_findUnique db (or_else h ''demo-user-1'') = None \<longrightarrow>
            (\<exists>r db1. GET production h db = (Json200 r, db1) \<and>
                 userId r = or_else h ''demo-user-1'' \<and>
                 flags_of r = DEFAULT_FLAGS \<and>
                 GET production' h (advance d db1) = (Json200 r, advance d db1)))"
proof -
  let ?u = "or_else h ''demo-user-1''"
  have inv: "db_inv db" using assms by (rule reachable_inv)
  from GET_ok[OF inv refl, where h=h and p=production]
  obtain r db1 where
    get: "GET production h db = (Json200 r, db1)"
    and f: "accessibilitySettings_findUnique db1 ?u = Some r"
    and u: "user_findUnique db1 ?u \<noteq> None"
    and ui: "userId r = ?u"
    and c: "case accessibilitySettings_findUnique db ?u of
              Some r0 \<Rightarrow> r = r0
            | None \<Rightarrow> flags_of r = DEFAULT_FLAGS \<and> id' r = cuid_counter db"
    by blast
  have again: "GET production' h (advance d db1) = (Json200 r, advance d db1)"
    using f u
    by (intro GET_again[where u="?u"])
       (simp_all add: advance_def user_findUnique_def accessibilitySettings_findUnique_def)
  show ?thesis using get f ui c again by auto
qed

text \<open>The theorem on a fresh database.\<close>

theorem GET_provisions_default_witness:
  "reachable (empty_database 7) \<and>
   accessibilitySettings_findUnique (empty_database 7) ''u1'' = None \<and>
   GET True (Some ''u1'') (empty_database 7)
     = (Json200 \<lparr>voiceNavigation = False, screenReader = False, highContrast = False,
                  largeText = False, keyboardNav = False,
                  id' = 0, userId = ''u1'', createdAt = 7, updatedAt = 7\<rparr>,
        snd (GET True (Some ''u1'') (empty_database 7))) \<and>
   fst (GET True (Some ''u1'') (advance 4 (snd (GET True (Some ''u1'') (empty_database 7)))))
     = Json200 \<lparr>voiceNavigation = False, screenReader = False, highContrast = False,
                 largeText = False, keyboardNav = False,
                 id' = 0, userId = ''u1'', createdAt = 7, updatedAt = 7\<rparr> \<and>
   snd (GET True (Some ''u1'') (advance 4 (snd (GET True (Some ''u1'') (empty_database 7)))))
     = advance 4 (snd (GET True (Some ''u1'') (empty_database 7)))"
proof -
  have r: "reachable (empty_database 7)" by (rule reachable.initial)
  have none: "accessibilitySettings_findUnique (empty_database 7) ''u1'' = None"
    by (simp add: handler_defs)
  have u: "or_else (Some ''u1'') ''demo-user-1'' = ''u1''"
    by (simp add: or_else_def)
  from GET_provisions_default[OF r, where production=True and production'=True
      and h="Some ''u1''" and d=4] none u
  obtain r1 db1 where
    g: "GET True (Some ''u1'') (empty_database 7) = (Json200 r1, db1)"
       "GET True (Some ''u1'') (advance 4 db1) = (Json200 r1, advance 4 db1)"
    by auto
  have "fst (GET True (Some ''u1'') (empty_database 7))
     = Json200 \<lparr>voiceNavigation = False, screenReader = False, highContrast = False,
                 largeText = False, keyboardNav = False,
                 id' = 0, userId = ''u1'', createdAt = 7, updatedAt = 7\<rparr>"
    by (simp add: handler_defs)
  with g r none show ?thesis by simp
qed

text \<open>
  Claim C10. A request whose \<^verbatim>\<open>x-user-id\<close> header is absent or empty is handled exactly as
  the request with the header \<^verbatim>\<open>demo-user-1\<close>, by \<^verbatim>\<open>GET\<close> and by \<^verbatim>\<open>PUT\<close>; the user id the
  handlers compute is never empty and neither handler ever answers 401, for any header,
  body and database. In a reachable state such a \<^verbatim>\<open>GET\<close> returns the row of
  \<^verbatim>\<open>demo-user-1\<close> and such a \<^verbatim>\<open>PUT\<close> of five booleans writes it.
\<close>

theorem demo_user_fallback:
  "(h = None \<or> h = Some [] \<longrightarrow>
      GET production h db = GET production (Some ''demo-user-1'') db \<and>
      PUT production h body db = PUT production (Some ''demo-user-1'') body db) \<and>
   or_else h ''demo-user-1'' \<noteq> [] \<and>
   status (fst (GET production h db)) \<noteq> 401 \<and>
   status (fst (PUT production h body db)) \<noteq> 401 \<and>
   (reachable db \<and> (h = None \<or> h = Some []) \<longrightarrow>
      (\<exists>r. fst (GET production h db) = Json200 r \<and> userId r = ''demo-user-1'' \<and>
            accessibilitySettings_findUnique (snd (GET production h db)) ''demo-user-1'' = Some r) \<and>
      (\<exists>r. fst (PUT production h (Some (payload P)) db) = Json200 r \<and> userId r = ''demo-user-1'' \<and>
            flags_of r = P \<and>
            accessibilitySettings_findUnique (snd (PUT production h (Some (payload P)) db)) ''demo-user-1'' = Some r))"
proof (intro conjI impI)
  assume "h = None \<or> h = Some []"
  then show "GET production h db = GET production (Some ''demo-user-1'') db"
    by (auto simp: GET_def or_else_def)
next
  assume "h = None \<or> h = Some []"
  then show "PUT production h body db = PUT production (Some ''demo-user-1'') body db"
    by (auto simp: PUT_def or_else_def)
next
  show ne: "or_else h ''demo-user-1'' \<noteq> []"
    by (simp add: or_else_nonempty)
  show "status (fst (GET production h db)) \<noteq> 401"
    using ne
    by (simp add: GET_def Let_def internal_error_def split: sum.splits option.splits prod.splits)
  show "status (fst (PUT production h body db)) \<noteq> 401"
    using ne
    by (simp add: PUT_def Let_def internal_error_def split: sum.splits option.splits prod.splits)
next
  assume a: "reachable db \<and> (h = None \<or> h = Some [])"
  then have u: "or_else h ''demo-user-1'' = ''demo-user-1''"
    by (auto simp: or_else_def)
  from a have inv: "db_inv db" by (simp add: reachable_inv)
  from GET_ok[OF inv u, where p=production]
  show "\<exists>r. fst (GET production h db) = Json200 r \<and> userId r = ''demo-user-1'' \<and>
            accessibilitySettings_findUnique (snd (GET production h db)) ''demo-user-1'' = Some r"
    by auto
  from PUT_ok[OF inv u schema_payload[of P], where p=production]
  show "\<exists>r. fst (PUT production h (Some (payload P)) db) = Json200 r \<and> userId r = ''demo-user-1'' \<and>
            flags_of r = P \<and>
            accessibilitySettings_findUnique (snd (PUT production h (Some (payload P)) db)) ''demo-user-1'' = Some r"
    by auto
qed

text \<open>The theorem on a fresh database, for an absent and for an empty header.\<close>

theorem demo_user_fallback_witness:
  "reachable (empty_database 0) \<and>
   GET True None (empty_database 0) = GET True (Some ''demo-user-1'') (empty_database 0) \<and>
   PUT True (Some []) (Some (payload DEFAULT_FLAGS)) (empty_database 0)
     = PUT True (Some ''demo-user-1'') (Some (payload DEFAULT_FLAGS)) (empty_database 0) \<and>
   fst (GET True None (empty_database 0))
     = Json200 \<lparr>voiceNavigation = False, screenReader = False, highContrast = False,
                 largeText = False, keyboardNav = False,
                 id' = 0, userId = ''demo-user-1'', createdAt = 0, updatedAt = 0\<rparr>"
proof -
  have r: "reachable (empty_database 0)" by (rule reachable.initial)
  from demo_user_fallback[where h=None and production=True and db="empty_database 0"
      and body="Some (payload DEFAULT_FLAGS)"]
  have a: "GET True None (empty_database 0) = GET True (Some ''demo-user-1'') (empty_database 0)"
    by simp
  from demo_user_fallback[where h="Some []" and production=True and db="empty_database 0"
      and body="Some (payload DEFAULT_FLAGS)"]
  have b: "PUT True (Some []) (Some (payload DEFAULT_FLAGS)) (empty_database 0)
     = PUT True (Some ''demo-user-1'') (Some (payload DEFAULT_FLAGS)) (empty_database 0)"
    by simp
  from demo_user_fallback[where h=None and production=True and db="empty_database 0"
      and body="Some (payload DEFAULT_FLAGS)" and P=DEFAULT_FLAGS] r
  have "\<exists>r1. fst (GET True None (empty_database 0)) = Json200 r1 \<and> userId r1 = ''demo-user-1''"
    by blast
  moreover have "fst (GET True None (empty_database 0))
     = Json200 \<lparr>voiceNavigation = False, screenReader = False, highContrast = False,
                 largeText = False, keyboardNav = False,
                 id' = 0, userId = ''demo-user-1'', createdAt = 0, updatedAt = 0\<rparr>"
    by (simp add: handler_defs)
  ultimately show ?thesis using r a b by simp
qed

text \<open>
  Claim C4 says that a request without caller identity is answered Unauthorized and
  changes nothing. The handlers do otherwise: on a fresh database, a \<^verbatim>\<open>GET\<close> and a \<^verbatim>\<open>PUT\<close>
  without the \<^verbatim>\<open>x-user-id\<close> header are answered with status 200, and afterwards the
  database holds a user row and a settings row for \<^verbatim>\<open>demo-user-1\<close>.
\<close>

theorem request_without_identity_served:
  "status (fst (GET True None (empty_database 0))) = 200 \<and>
   snd (GET True None (empty_database 0))
     = \<lparr>user = [\<lparr>user_id = ''demo-user-1'', email = ''demo-user-1@local''\<rparr>],
        accessibilitySettings =
          [\<lparr>voiceNavigation = False, screenReader = False, highContrast = False,
            largeText = False, keyboardNav = False,
            id' = 0, userId = ''demo-user-1'', createdAt = 0, updatedAt = 0\<rparr>],
        cuid_counter = 1, clock = 0\<rparr> \<and>
   status (fst (PUT True None (Some (payload \<lparr>voiceNavigation = True, screenReader = False,
       highContrast = False, largeText = False, keyboardNav = False\<rparr>)) (empty_database 0))) = 200 \<and>
   snd (PUT True None (Some (payload \<lparr>voiceNavigation = True, screenReader = False,
       highContrast = False, largeText = False, keyboardNav = False\<rparr>)) (empty_database 0))
     = \<lparr>user = [\<lparr>user_id = ''demo-user-1'', email = ''demo-user-1@local''\<rparr>],
        accessibilitySettings =
          [\<lparr>voiceNavigation = True, screenReader = False, highContrast = False,
            largeText = False, keyboardNav = False,
            id' = 0, userId = ''demo-user-1'', createdAt = 0, updatedAt = 0\<rparr>],
        cuid_counter = 1, clock = 0\<rparr>"
  by (simp add: handler_defs schema_defs payload_def)

section \<open>The applier: idempotence and reversibility\<close>

lemma set_token_add [simp]: "set (token_add t ts) = insert t (set ts)"
  by (auto simp: token_add_def)

lemma set_token_remove [simp]: "set (token_remove t ts) = set ts - {t}"
  by (auto simp: token_remove_def)

lemma token_add_present: "t \<in> set ts \<Longrightarrow> token_add t ts = ts"
  by (simp add: token_add_def)

lemma token_add_absent: "t \<notin> set ts \<Longrightarrow> token_add t ts = ts @ [t]"
  by (simp add: token_add_def)

lemma token_remove_absent: "t \<notin> set ts \<Longrightarrow> token_remove t ts = ts"
  by (induction ts) (auto simp: token_remove_def)

lemma token_remove_snoc: "token_remove t (ts @ [t']) = token_remove t ts @ (if t' = t then [] else [t'])"
  by (simp add: token_remove_def)

lemma keys_attr_set [simp]: "fst ` set (attr_set n v as) = insert n (fst ` set as)"
  by (force simp: attr_set_def image_iff split: if_splits)

lemma keys_attr_remove [simp]: "fst ` set (attr_remove n as) = fst ` set as - {n}"
  by (force simp: attr_remove_def image_iff)

lemma attr_remove_absent: "n \<notin> fst ` set as \<Longrightarrow> attr_remove n as = as"
  by (induction as) (auto simp: attr_remove_def)

lemma attr_set_absent: "n \<notin> fst ` set as \<Longrightarrow> attr_set n v as = as @ [(n, v)]"
  by (simp add: attr_set_def)

lemma attr_remove_snoc:
  "attr_remove n (as @ [(n', v)]) = attr_remove n as @ (if n' = n then [] else [(n', v)])"
  by (simp add: attr_remove_def)
lemma attr_map_same:
  "attr_all n v as \<Longrightarrow> map (\<lambda>(k, w). if k = n then (k, v) else (k, w)) as = as"
  by (induction as) (auto simp: attr_all_def)

lemma attr_set_same: "attr_all n v as \<Longrightarrow> n \<in> fst ` set as \<Longrightarrow> attr_set n v as = as"
  by (simp add: attr_set_def attr_map_same)

lemma attr_all_set_same [simp]: "attr_all n v (attr_set n v as)"
  by (auto simp: attr_set_def attr_all_def list_all_iff)

lemma attr_all_map_other:
  "n' \<noteq> n \<Longrightarrow>
   attr_all n v (map (\<lambda>(k, w). if k = n' then (k, v') else (k, w)) as) = attr_all n v as"
  by (induction as) (auto simp: attr_all_def)

lemma attr_all_set_other [simp]: "n' \<noteq> n \<Longrightarrow> attr_all n v (attr_set n' v' as) = attr_all n v as"
  by (auto simp: attr_set_def attr_all_map_other) (auto simp: attr_all_def)

lemma attr_all_remove_other [simp]: "n' \<noteq> n \<Longrightarrow> attr_all n v (attr_remove n' as) = attr_all n v as"
  by (induction as) (auto simp: attr_remove_def attr_all_def)

lemma attr_all_snoc [simp]: "attr_all n v (as @ [(n', v')]) = (attr_all n v as \<and> (n' \<noteq> n \<or> v' = v))"
  by (auto simp: attr_all_def)

lemma apply_classList:
  "classList (useApplyAccessibilitySettings S root) =
     (if keyboardNav S then token_add ''keyboard-nav'' else token_remove ''keyboard-nav'')
       ((if largeText S then token_add ''large-text'' else token_remove ''large-text'')
         ((if highContrast S then token_add ''high-contrast'' else token_remove ''high-contrast'')
           (classList root)))"
  by (simp add: useApplyAccessibilitySettings_def classList_add_def classList_remove_def
      setAttribute_def removeAttribute_def Let_def)

lemma apply_attributes:
  "attributes (useApplyAccessibilitySettings S root) =
     (if voiceNavigation S then attr_set ''data-voice-nav'' ''true'' else attr_remove ''data-voice-nav'')
       ((if screenReader S then attr_set ''data-screen-reader'' ''true'' else attr_remove ''data-screen-reader'')
         ((if keyboardNav S then attr_set ''data-keyboard-nav'' ''true'' else attr_remove ''data-keyboard-nav'')
           (attributes root)))"
  by (simp add: useApplyAccessibilitySettings_def classList_add_def classList_remove_def
      setAttribute_def removeAttribute_def Let_def)

lemma Element_eqI:
  fixes a b :: Element
  shows "classList a = classList b \<Longrightarrow> attributes a = attributes b \<Longrightarrow> a = b"
  by (cases a, cases b) simp

lemmas token_simps = token_add_present token_remove_absent
lemmas attr_simps = attr_set_same attr_remove_absent


lemma token_chain_idem:
  assumes "t1 \<noteq> t2" "t1 \<noteq> t3" "t2 \<noteq> t3"
  shows "(if b3 then token_add t3 else token_remove t3)
           ((if b2 then token_add t2 else token_remove t2)
             ((if b1 then token_add t1 else token_remove t1)
               ((if b3 then token_add t3 else token_remove t3)
                 ((if b2 then token_add t2 else token_remove t2)
                   ((if b1 then token_add t1 else token_remove t1) ts)))))
       = (if b3 then token_add t3 else token_remove t3)
           ((if b2 then token_add t2 else token_remove t2)
             ((if b1 then token_add t1 else token_remove t1) ts))"
  using assms by (cases b1; cases b2; cases b3) (simp_all add: token_simps)

lemma attr_chain_idem:
  assumes "n1 \<noteq> n2" "n1 \<noteq> n3" "n2 \<noteq> n3"
  shows "(if b3 then attr_set n3 v else attr_remove n3)
           ((if b2 then attr_set n2 v else attr_remove n2)
             ((if b1 then attr_set n1 v else attr_remove n1)
               ((if b3 then attr_set n3 v else attr_remove n3)
                 ((if b2 then attr_set n2 v else attr_remove n2)
                   ((if b1 then attr_set n1 v else attr_remove n1) as)))))
       = (if b3 then attr_set n3 v else attr_remove n3)
           ((if b2 then attr_set n2 v else attr_remove n2)
             ((if b1 then attr_set n1 v else attr_remove n1) as))"
  using assms by (cases b1; cases b2; cases b3) (simp_all add: attr_simps)

lemma class_names_distinct:
  "''high-contrast'' \<noteq> ''large-text''" "''high-contrast'' \<noteq> ''keyboard-nav''"
  "''large-text'' \<noteq> ''keyboard-nav''"
  by simp_all

lemma attr_names_distinct:
  "''data-keyboard-nav'' \<noteq> ''data-screen-reader''" "''data-keyboard-nav'' \<noteq> ''data-voice-nav''"
  "''data-screen-reader'' \<noteq> ''data-voice-nav''"
  by simp_all

text \<open>
  Claim C5. For every flag assignment and every state of the root element, running the
  effect a second time with the same flags leaves the element (its class list and its
  attributes) as the first run left it.
\<close>

theorem applier_idempotent:
  "useApplyAccessibilitySettings S (useApplyAccessibilitySettings S root)
     = useApplyAccessibilitySettings S root"
proof (rule Element_eqI)
  show "classList (useApplyAccessibilitySettings S (useApplyAccessibilitySettings S root))
      = classList (useApplyAccessibilitySettings S root)"
    unfolding apply_classList by (rule token_chain_idem[OF class_names_distinct])
  show "attributes (useApplyAccessibilitySettings S (useApplyAccessibilitySettings S root))
      = attributes (useApplyAccessibilitySettings S root)"
    unfolding apply_attributes by (rule attr_chain_idem[OF attr_names_distinct])
qed

lemmas token_toggle_simps =
  token_add_present token_add_absent token_remove_absent token_remove_snoc

lemmas attr_toggle_simps =
  attr_set_same attr_set_absent attr_remove_absent attr_remove_snoc

lemma token_chain_toggle1:
  assumes "t1 \<noteq> t2" "t1 \<noteq> t3" "t2 \<noteq> t3"
  shows "(if b3 then token_add t3 else token_remove t3)
           ((if b2 then token_add t2 else token_remove t2)
             (token_remove t1
               ((if b3 then token_add t3 else token_remove t3)
                 ((if b2 then token_add t2 else token_remove t2)
                   (token_add t1
                     ((if b3 then token_add t3 else token_remove t3)
                       ((if b2 then token_add t2 else token_remove t2)
                         (token_remove t1 ts))))))))
       = (if b3 then token_add t3 else token_remove t3)
           ((if b2 then token_add t2 else token_remove t2)
             (token_remove t1 ts))"
  using assms by (cases b2; cases b3) (simp_all add: token_toggle_simps)

lemma token_chain_toggle2:
  assumes "t1 \<noteq> t2" "t1 \<noteq> t3" "t2 \<noteq> t3"
  shows "(if b3 then token_add t3 else token_remove t3)
           (token_remove t2
             ((if b1 then token_add t1 else token_remove t1)
               ((if b3 then token_add t3 else token_remove t3)
                 (token_add t2
                   ((if b1 then token_add t1 else token_remove t1)
                     ((if b3 then token_add t3 else token_remove t3)
                       (token_remove t2
                         ((if b1 then token_add t1 else token_remove t1) ts))))))))
       = (if b3 then token_add t3 else token_remove t3)
           (token_remove t2
             ((if b1 then token_add t1 else token_remove t1) ts))"
  using assms by (cases b1; cases b3) (simp_all add: token_toggle_simps)

lemma token_chain_toggle3:
  assumes "t1 \<noteq> t2" "t1 \<noteq> t3" "t2 \<noteq> t3"
  shows "token_remove t3
           ((if b2 then token_add t2 else token_remove t2)
             ((if b1 then token_add t1 else token_remove t1)
               (token_add t3
                 ((if b2 then token_add t2 else token_remove t2)
                   ((if b1 then token_add t1 else token_remove t1)
                     (token_remove t3
                       ((if b2 then token_add t2 else token_remove t2)
                         ((if b1 then token_add t1 else token_remove t1) ts))))))))
       = token_remove t3
           ((if b2 then token_add t2 else token_remove t2)
             ((if b1 then token_add t1 else token_remove t1) ts))"
  using assms by (cases b1; cases b2) (simp_all add: token_toggle_simps)

lemma attr_chain_toggle1:
  assumes "n1 \<noteq> n2" "n1 \<noteq> n3" "n2 \<noteq> n3"
  shows "(if b3 then attr_set n3 v else attr_remove n3)
           ((if b2 then attr_set n2 v else attr_remove n2)
             (attr_remove n1
               ((if b3 then attr_set n3 v else attr_remove n3)
                 ((if b2 then attr_set n2 v else attr_remove n2)
                   (attr_set n1 v
                     ((if b3 then attr_set n3 v else attr_remove n3)
                       ((if b2 then attr_set n2 v else attr_remove n2)
                         (attr_remove n1 as))))))))
       = (if b3 then attr_set n3 v else attr_remove n3)
           ((if b2 then attr_set n2 v else attr_remove n2)
             (attr_remove n1 as))"
  using assms by (cases b2; cases b3) (simp_all add: attr_toggle_simps)

lemma attr_chain_toggle2:
  assumes "n1 \<noteq> n2" "n1 \<noteq> n3" "n2 \<noteq> n3"
  shows "(if b3 then attr_set n3 v else attr_remove n3)
           (attr_remove n2
             ((if b1 then attr_set n1 v else attr_remove n1)
               ((if b3 then attr_set n3 v else attr_remove n3)
                 (attr_set n2 v
                   ((if b1 then attr_set n1 v else attr_remove n1)
                     ((if b3 then attr_set n3 v else attr_remove n3)
                       (attr_remove n2
                         ((if b1 then attr_set n1 v else attr_remove n1) as))))))))
       = (if b3 then attr_set n3 v else attr_remove n3)
           (attr_remove n2
             ((if b1 then attr_set n1 v else attr_remove n1) as))"
  using assms by (cases b1; cases b3) (simp_all add: attr_toggle_simps)

lemma attr_chain_toggle3:
  assumes "n1 \<noteq> n2" "n1 \<noteq> n3" "n2 \<noteq> n3"
  shows "attr_remove n3
           ((if b2 then attr_set n2 v else attr_remove n2)
             ((if b1 then attr_set n1 v else attr_remove n1)
               (attr_set n3 v
                 ((if b2 then attr_set n2 v else attr_remove n2)
                   ((if b1 then attr_set n1 v else attr_remove n1)
                     (attr_remove n3
                       ((if b2 then attr_set n2 v else attr_remove n2)
                         ((if b1 then attr_set n1 v else attr_remove n1) as))))))))
       = attr_remove n3
           ((if b2 then attr_set n2 v else attr_remove n2)
             ((if b1 then attr_set n1 v else attr_remove n1) as))"
  using assms by (cases b1; cases b2) (simp_all add: attr_toggle_simps)

lemmas chain_rules =
  token_chain_idem[OF class_names_distinct] attr_chain_idem[OF attr_names_distinct]
  token_chain_toggle1[OF class_names_distinct] token_chain_toggle2[OF class_names_distinct]
  token_chain_toggle3[OF class_names_distinct]
  attr_chain_toggle1[OF attr_names_distinct] attr_chain_toggle2[OF attr_names_distinct]
  attr_chain_toggle3[OF attr_names_distinct]

lemma toggle_highContrast:
  "useApplyAccessibilitySettings (S\<lparr>highContrast := False\<rparr>)
     (useApplyAccessibilitySettings (S\<lparr>highContrast := True\<rparr>)
        (useApplyAccessibilitySettings (S\<lparr>highContrast := False\<rparr>) root))
   = useApplyAccessibilitySettings (S\<lparr>highContrast := False\<rparr>) root"
  by (rule Element_eqI) (simp_all add: apply_classList apply_attributes chain_rules)

lemma toggle_largeText:
  "useApplyAccessibilitySettings (S\<lparr>largeText := False\<rparr>)
     (useApplyAccessibilitySettings (S\<lparr>largeText := True\<rparr>)
        (useApplyAccessibilitySettings (S\<lparr>largeText := False\<rparr>) root))
   = useApplyAccessibilitySettings (S\<lparr>largeText := False\<rparr>) root"
  by (rule Element_eqI) (simp_all add: apply_classList apply_attributes chain_rules)

lemma toggle_keyboardNav:
  "useApplyAccessibilitySettings (S\<lparr>keyboardNav := False\<rparr>)
     (useApplyAccessibilitySettings (S\<lparr>keyboardNav := True\<rparr>)
        (useApplyAccessibilitySettings (S\<lparr>keyboardNav := False\<rparr>) root))
   = useApplyAccessibilitySettings (S\<lparr>keyboardNav := False\<rparr>) root"
  by (rule Element_eqI) (simp_all add: apply_classList apply_attributes chain_rules)

lemma toggle_screenReader:
  "useApplyAccessibilitySettings (S\<lparr>screenReader := False\<rparr>)
     (useApplyAccessibilitySettings (S\<lparr>screenReader := True\<rparr>)
        (useApplyAccessibilitySettings (S\<lparr>screenReader := False\<rparr>) root))
   = useApplyAccessibilitySettings (S\<lparr>screenReader := False\<rparr>) root"
  by (rule Element_eqI) (simp_all add: apply_classList apply_attributes chain_rules)

lemma toggle_voiceNavigation:
  "useApplyAccessibilitySettings (S\<lparr>voiceNavigation := False\<rparr>)
     (useApplyAccessibilitySettings (S\<lparr>voiceNavigation := True\<rparr>)
        (useApplyAccessibilitySettings (S\<lparr>voiceNavigation := False\<rparr>) root))
   = useApplyAccessibilitySettings (S\<lparr>voiceNavigation := False\<rparr>) root"
  by (rule Element_eqI) (simp_all add: apply_classList apply_attributes chain_rules)

lemma markers:
  "classList_contains ''high-contrast'' (useApplyAccessibilitySettings S root) = highContrast S"
  "classList_contains ''large-text'' (useApplyAccessibilitySettings S root) = largeText S"
  "classList_contains ''keyboard-nav'' (useApplyAccessibilitySettings S root) = keyboardNav S"
  "hasAttribute ''data-keyboard-nav'' (useApplyAccessibilitySettings S root) = keyboardNav S"
  "hasAttribute ''data-screen-reader'' (useApplyAccessibilitySettings S root) = screenReader S"
  "hasAttribute ''data-voice-nav'' (useApplyAccessibilitySettings S root) = voiceNavigation S"
  by (simp_all add: classList_contains_def hasAttribute_def apply_classList apply_attributes)

text \<open>
  Claim C6. For each of the five flags: once the effect has run with the flag false,
  running it with the flag true and then with the flag false again gives back exactly the
  element the first run produced, whatever the other four flags and the element before
  were. After any run, each flag's marker is present exactly when the flag is true:
  the classes \<^verbatim>\<open>high-contrast\<close>, \<^verbatim>\<open>large-text\<close> and \<^verbatim>\<open>keyboard-nav\<close>, and the attributes
  \<^verbatim>\<open>data-keyboard-nav\<close>, \<^verbatim>\<open>data-screen-reader\<close> and \<^verbatim>\<open>data-voice-nav\<close>; so no marker depends
  on another flag or on the element before.
\<close>

theorem applier_toggle_reversible:
  "useApplyAccessibilitySettings (S\<lparr>highContrast := False\<rparr>)
     (useApplyAccessibilitySettings (S\<lparr>highContrast := True\<rparr>)
        (useApplyAccessibilitySettings (S\<lparr>highContrast := False\<rparr>) root))
     = useApplyAccessibilitySettings (S\<lparr>highContrast := False\<rparr>) root \<and>
   useApplyAccessibilitySettings (S\<lparr>largeText := False\<rparr>)
     (useApplyAccessibilitySettings (S\<lparr>largeText := True\<rparr>)
        (useApplyAccessibilitySettings (S\<lparr>largeText := False\<rparr>) root))
     = useApplyAccessibilitySettings (S\<lparr>largeText := False\<rparr>) root \<and>
   useApplyAccessibilitySettings (S\<lparr>keyboardNav := False\<rparr>)
     (useApplyAccessibilitySettings (S\<lparr>keyboardNav := True\<rparr>)
        (useApplyAccessibilitySettings (S\<lparr>keyboardNav := False\<rparr>) root))
     = useApplyAccessibilitySettings (S\<lparr>keyboardNav := False\<rparr>) root \<and>
   useApplyAccessibilitySettings (S\<lparr>screenReader := False\<rparr>)
     (useApplyAccessibilitySettings (S\<lparr>screenReader := True\<rparr>)
        (useApplyAccessibilitySettings (S\<lparr>screenReader := False\<rparr>) root))
     = useApplyAccessibilitySettings (S\<lparr>screenReader := False\<rparr>) root \<and>
   useApplyAccessibilitySettings (S\<lparr>voiceNavigation := False\<rparr>)
     (useApplyAccessibilitySettings (S\<lparr>voiceNavigation := True\<rparr>)
        (useApplyAccessibilitySettings (S\<lparr>voiceNavigation := False\<rparr>) root))
     = useApplyAccessibilitySettings (S\<lparr>voiceNavigation := False\<rparr>) root \<and>
   classList_contains ''high-contrast'' (useApplyAccessibilitySettings S root) = highContrast S \<and>
   classList_contains ''large-text'' (useApplyAccessibilitySettings S root) = largeText S \<and>
   classList_contains ''keyboard-nav'' (useApplyAccessibilitySettings S root) = keyboardNav S \<and>
   hasAttribute ''data-keyboard-nav'' (useApplyAccessibilitySettings S root) = keyboardNav S \<and>
   hasAttribute ''data-screen-reader'' (useApplyAccessibilitySettings S root) = screenReader S \<and>
   hasAttribute ''data-voice-nav'' (useApplyAccessibilitySettings S root) = voiceNavigation S"
  by (intro conjI)
     (fact toggle_highContrast toggle_largeText toggle_keyboardNav toggle_screenReader
        toggle_voiceNavigation markers)+

section \<open>The client state: loading and updating\<close>

lemma get_property_defined:
  "data \<noteq> JNull \<Longrightarrow> data \<noteq> JUndefined \<Longrightarrow> get_property data k = Inr (get_field data k)"
  by (cases data) (simp_all add: get_field_def property_def)

lemma fetchSettings_try_success:
  assumes "ok response" "resp_json response = Inr data" "data \<noteq> JNull" "data \<noteq> JUndefined"
  shows "fetchSettings_try (Inr response) =
           Inr \<lparr>voiceNavigation = get_field data ''voiceNavigation'',
                screenReader = get_field data ''screenReader'',
                highContrast = get_field data ''highContrast'',
                largeText = get_field data ''largeText'',
                keyboardNav = get_field data ''keyboardNav''\<rparr>"
  using assms by (simp add: fetchSettings_try_def get_property_defined)

lemma fetchSettings_try_failure:
  assumes "\<not> (\<exists>response data. fetched = Inr response \<and> ok response \<and>
              resp_json response = Inr data \<and> data \<noteq> JNull \<and> data \<noteq> JUndefined)"
  shows "\<exists>e. fetchSettings_try fetched = Inl e"
proof (cases fetched)
  case (Inl e)
  then show ?thesis by (simp add: fetchSettings_try_def)
next
  case (Inr response)
  show ?thesis
  proof (cases "ok response")
    case False
    with Inr show ?thesis by (simp add: fetchSettings_try_def)
  next
    case True
    show ?thesis
    proof (cases "resp_json response")
      case (Inl e)
      with Inr True show ?thesis by (simp add: fetchSettings_try_def)
    next
      case (Inr data)
      with assms \<open>fetched = Inr response\<close> True have "data = JNull \<or> data = JUndefined" by auto
      with Inr \<open>fetched = Inr response\<close> True show ?thesis
        by (auto simp: fetchSettings_try_def)
    qed
  qed
qed

text \<open>
  Claim C7. Whatever the fetch settles to, \<^verbatim>\<open>fetchSettings\<close> ends with the loading
  indicator cleared. On success (a response with an ok status whose body parses to a value
  other than \<^verbatim>\<open>null\<close>) the state holds the body's five flag properties and no error. On
  every other outcome (the fetch rejects, the status is not ok, the body does not parse,
  or it parses to \<^verbatim>\<open>null\<close>) the state holds the all-false defaults and an error message:
  the rejection's message, or \<^verbatim>\<open>Failed to fetch settings: <status> <detail>\<close> for a status
  that is not ok.
\<close>

theorem fetchSettings_outcomes:
  "(fetched = Inr response \<and> ok response \<and> resp_json response = Inr data \<and>
      data \<noteq> JNull \<and> data \<noteq> JUndefined \<longrightarrow>
        settings (fetchSettings st fetched) =
          \<lparr>voiceNavigation = get_field data ''voiceNavigation'',
           screenReader = get_field data ''screenReader'',
           highContrast = get_field data ''highContrast'',
           largeText = get_field data ''largeText'',
           keyboardNav = get_field data ''keyboardNav''\<rparr> \<and>
        error (fetchSettings st fetched) = None \<and>
        \<not> isLoading (fetchSettings st fetched)) \<and>
   (\<not> (\<exists>response data. fetched = Inr response \<and> ok response \<and>
          resp_json response = Inr data \<and> data \<noteq> JNull \<and> data \<noteq> JUndefined) \<longrightarrow>
        settings (fetchSettings st fetched) = DEFAULT_SETTINGS \<and>
        error (fetchSettings st fetched) \<noteq> None \<and>
        \<not> isLoading (fetchSettings st fetched)) \<and>
   (fetched = Inl (Error m) \<longrightarrow> error (fetchSettings st fetched) = Some m) \<and>
   (fetched = Inr response \<and> \<not> ok response \<longrightarrow>
        error (fetchSettings st fetched) =
          Some (''Failed to fetch settings: '' @ show_nat (resp_status response) @ '' ''
                @ response_msg response)) \<and>
   \<not> isLoading (fetchSettings st fetched)"
proof (intro conjI impI)
  assume "fetched = Inr response \<and> ok response \<and> resp_json response = Inr data \<and>
      data \<noteq> JNull \<and> data \<noteq> JUndefined"
  then have t: "fetchSettings_try fetched =
           Inr \<lparr>voiceNavigation = get_field data ''voiceNavigation'',
                screenReader = get_field data ''screenReader'',
                highContrast = get_field data ''highContrast'',
                largeText = get_field data ''largeText'',
                keyboardNav = get_field data ''keyboardNav''\<rparr>"
    by (simp add: fetchSettings_try_success)
  show "settings (fetchSettings st fetched) =
          \<lparr>voiceNavigation = get_field data ''voiceNavigation'',
           screenReader = get_field data ''screenReader'',
           highContrast = get_field data ''highContrast'',
           largeText = get_field data ''largeText'',
           keyboardNav = get_field data ''keyboardNav''\<rparr>"
    by (simp add: fetchSettings_def t)
  show "error (fetchSettings st fetched) = None"
    by (simp add: fetchSettings_def t)
  show "\<not> isLoading (fetchSettings st fetched)"
    by (simp add: fetchSettings_def Let_def)
next
  assume "\<not> (\<exists>response data. fetched = Inr response \<and> ok response \<and>
          resp_json response = Inr data \<and> data \<noteq> JNull \<and> data \<noteq> JUndefined)"
  then obtain e where t: "fetchSettings_try fetched = Inl e"
    using fetchSettings_try_failure by blast
  show "settings (fetchSettings st fetched) = DEFAULT_SETTINGS"
    by (simp add: fetchSettings_def t)
  show "error (fetchSettings st fetched) \<noteq> None"
    by (simp add: fetchSettings_def t)
  show "\<not> isLoading (fetchSettings st fetched)"
    by (simp add: fetchSettings_def Let_def)
next
  assume "fetched = Inl (Error m)"
  then show "error (fetchSettings st fetched) = Some m"
    by (simp add: fetchSettings_def fetchSettings_try_def)
next
  assume "fetched = Inr response \<and> \<not> ok response"
  then show "error (fetchSettings st fetched) =
          Some (''Failed to fetch settings: '' @ show_nat (resp_status response) @ '' ''
                @ response_msg response)"
    by (simp add: fetchSettings_def fetchSettings_try_def)
next
  show "\<not> isLoading (fetchSettings st fetched)"
    by (simp add: fetchSettings_def Let_def)
qed

text \<open>The theorem at a 200 response carrying a settings record, at a 500 response and at a
  rejected fetch, from the state at mount.\<close>

theorem fetchSettings_outcomes_witness:
  "fetchSettings initial_state
     (Inr \<lparr>resp_status = 200, statusText = ''OK'',
           resp_json = Inr (JObject [(''id'', JString ''c0''), (''userId'', JString ''u1''),
                                     (''voiceNavigation'', JBool False), (''screenReader'', JBool True),
                                     (''highContrast'', JBool True), (''largeText'', JBool False),
                                     (''keyboardNav'', JBool False)])\<rparr>)
     = \<lparr>settings = \<lparr>voiceNavigation = JBool False, screenReader = JBool True,
                       highContrast = JBool True, largeText = JBool False,
                       keyboardNav = JBool False\<rparr>,
        isLoading = False, error = None\<rparr> \<and>
   fetchSettings initial_state
     (Inr \<lparr>resp_status = 500, statusText = ''Internal Server Error'',
           resp_json = Inr (JObject [(''error'', JString ''Internal server error'')])\<rparr>)
     = \<lparr>settings = DEFAULT_SETTINGS, isLoading = False,
        error = Some ''Failed to fetch settings: 500 Internal server error''\<rparr> \<and>
   fetchSettings initial_state (Inl (Error ''Failed to fetch''))
     = \<lparr>settings = DEFAULT_SETTINGS, isLoading = False, error = Some ''Failed to fetch''\<rparr>"
proof -
  let ?ok = "\<lparr>resp_status = 200, statusText = ''OK'',
           resp_json = Inr (JObject [(''id'', JString ''c0''), (''userId'', JString ''u1''),
                                     (''voiceNavigation'', JBool False), (''screenReader'', JBool True),
                                     (''highContrast'', JBool True), (''largeText'', JBool False),
                                     (''keyboardNav'', JBool False)])\<rparr>"
  let ?bad = "\<lparr>resp_status = 500, statusText = ''Internal Server Error'',
           resp_json = Inr (JObject [(''error'', JString ''Internal server error'')])\<rparr>"
  have n: "show_nat 500 = ''500''"
    by (simp add: show_nat.simps)
  from fetchSettings_outcomes[where fetched="Inr ?ok" and response="?ok" and st=initial_state
      and data="JObject [(''id'', JString ''c0''), (''userId'', JString ''u1''),
                                     (''voiceNavigation'', JBool False), (''screenReader'', JBool True),
                                     (''highContrast'', JBool True), (''largeText'', JBool False),
                                     (''keyboardNav'', JBool False)]"]
  have a: "fetchSettings initial_state (Inr ?ok)
     = \<lparr>settings = \<lparr>voiceNavigation = JBool False, screenReader = JBool True,
                       highContrast = JBool True, largeText = JBool False,
                       keyboardNav = JBool False\<rparr>,
        isLoading = False, error = None\<rparr>"
    by (cases "fetchSettings initial_state (Inr ?ok)")
       (simp add: ok_def get_field_def property_def)
  from fetchSettings_outcomes[where fetched="Inr ?bad" and response="?bad" and st=initial_state]
  have b: "fetchSettings initial_state (Inr ?bad)
     = \<lparr>settings = DEFAULT_SETTINGS, isLoading = False,
        error = Some ''Failed to fetch settings: 500 Internal server error''\<rparr>"
    by (cases "fetchSettings initial_state (Inr ?bad)")
       (simp add: ok_def response_msg_def n)
  from fetchSettings_outcomes[where fetched="Inl (Error ''Failed to fetch'')" and st=initial_state
      and m="''Failed to fetch''"]
  have c: "fetchSettings initial_state (Inl (Error ''Failed to fetch''))
     = \<lparr>settings = DEFAULT_SETTINGS, isLoading = False, error = Some ''Failed to fetch''\<rparr>"
    by (cases "fetchSettings initial_state (Inl (Error ''Failed to fetch''))") simp
  from a b c show ?thesis by simp
qed

lemma JSON_stringify_booleans: "JSON_stringify (booleans P) = payload P"
  by (simp add: JSON_stringify_def booleans_def payload_def)

lemma read_spread_key: "read_key (spread_key s k v) k' = (if k' = k then v else read_key s k')"
  by (cases k; cases k') simp_all

text \<open>
  Claim C8. \<^verbatim>\<open>updateSetting(k, v)\<close> sets the local flags to the prior flags with \<open>k\<close>
  replaced by \<open>v\<close>, touching neither the loading indicator nor the error, and sends one
  \<^verbatim>\<open>PUT\<close> whose body is the whole merged flag set; when the merged flags are five booleans,
  the body is the payload the server's schema accepts as exactly those five. Both are
  fixed before the request settles. When it settles, on whatever the state is by then,
  the flags and the loading indicator are left as they are: a rejected fetch or a status
  that is not ok sets the error message and rolls nothing back, an ok status clears the
  error.
\<close>

theorem updateSetting_optimistic:
  "settings (fst (updateSetting st uid k v)) = spread_key (settings st) k (JBool v) \<and>
   (\<forall>k'. read_key (settings (fst (updateSetting st uid k v))) k'
           = (if k' = k then JBool v else read_key (settings st) k')) \<and>
   isLoading (fst (updateSetting st uid k v)) = isLoading st \<and>
   error (fst (updateSetting st uid k v)) = error st \<and>
   http_method (snd (updateSetting st uid k v)) = ''PUT'' \<and>
   header_x_user_id (snd (updateSetting st uid k v)) = or_else uid ''demo-user-1'' \<and>
   req_body (snd (updateSetting st uid k v)) = JSON_stringify (settings (fst (updateSetting st uid k v))) \<and>
   (settings (fst (updateSetting st uid k v)) = booleans P \<longrightarrow>
      req_body (snd (updateSetting st uid k v)) = payload P \<and>
      AccessibilitySettingsSchema (req_body (snd (updateSetting st uid k v))) = Inr P) \<and>
   settings (persistSettings_settled st' fetched) = settings st' \<and>
   isLoading (persistSettings_settled st' fetched) = isLoading st' \<and>
   (fetched = Inl (Error m) \<longrightarrow> error (persistSettings_settled st' fetched) = Some m) \<and>
   (fetched = Inl NonError \<longrightarrow>
      error (persistSettings_settled st' fetched) = Some ''Failed to save settings'') \<and>
   (fetched = Inr response \<and> \<not> ok response \<longrightarrow>
      error (persistSettings_settled st' fetched)
        = Some (''Failed to save settings: '' @ show_nat (resp_status response) @ '' ''
                @ response_msg response)) \<and>
   (fetched = Inr response \<and> ok response \<longrightarrow> error (persistSettings_settled st' fetched) = None)"
proof -
  have s: "settings (persistSettings_settled st' fetched) = settings st'"
         "isLoading (persistSettings_settled st' fetched) = isLoading st'"
    by (simp_all add: persistSettings_settled_def split: sum.splits)
  have b: "settings (fst (updateSetting st uid k v)) = booleans P \<longrightarrow>
      req_body (snd (updateSetting st uid k v)) = payload P \<and>
      AccessibilitySettingsSchema (req_body (snd (updateSetting st uid k v))) = Inr P"
    by (simp add: updateSetting_def Let_def persistSettings_request_def
        JSON_stringify_booleans schema_payload)
  have e: "fetched = Inl (Error m) \<longrightarrow> error (persistSettings_settled st' fetched) = Some m"
      "fetched = Inl NonError \<longrightarrow>
         error (persistSettings_settled st' fetched) = Some ''Failed to save settings''"
      "fetched = Inr response \<and> \<not> ok response \<longrightarrow>
         error (persistSettings_settled st' fetched)
           = Some (''Failed to save settings: '' @ show_nat (resp_status response) @ '' ''
                @ response_msg response)"
      "fetched = Inr response \<and> ok response \<longrightarrow> error (persistSettings_settled st' fetched) = None"
    by (simp_all add: persistSettings_settled_def)
  have u: "settings (fst (updateSetting st uid k v)) = spread_key (settings st) k (JBool v)"
      "\<forall>k'. read_key (settings (fst (updateSetting st uid k v))) k'
           = (if k' = k then JBool v else read_key (settings st) k')"
      "isLoading (fst (updateSetting st uid k v)) = isLoading st"
      "error (fst (updateSetting st uid k v)) = error st"
      "http_method (snd (updateSetting st uid k v)) = ''PUT''"
      "header_x_user_id (snd (updateSetting st uid k v)) = or_else uid ''demo-user-1''"
      "req_body (snd (updateSetting st uid k v)) = JSON_stringify (settings (fst (updateSetting st uid k v)))"
    by (simp_all add: updateSetting_def Let_def persistSettings_request_def read_spread_key)
  show ?thesis
    by (intro conjI) (fact u s b e)+
qed

text \<open>The theorem at the toggle of \<^verbatim>\<open>highContrast\<close> from the all-false state, with the
  request answered 500 and with the fetch rejected.\<close>

theorem updateSetting_optimistic_witness:
  "settings (fst (updateSetting \<lparr>settings = DEFAULT_SETTINGS, isLoading = False, error = None\<rparr>
          None K_highContrast True))
     = \<lparr>voiceNavigation = JBool False, screenReader = JBool False,
          highContrast = JBool True, largeText = JBool False, keyboardNav = JBool False\<rparr> \<and>
   AccessibilitySettingsSchema
     (req_body (snd (updateSetting \<lparr>settings = DEFAULT_SETTINGS, isLoading = False, error = None\<rparr>
          None K_highContrast True)))
     = Inr \<lparr>voiceNavigation = False, screenReader = False, highContrast = True,
            largeText = False, keyboardNav = False\<rparr> \<and>
   settings (persistSettings_settled
     (fst (updateSetting \<lparr>settings = DEFAULT_SETTINGS, isLoading = False, error = None\<rparr>
          None K_highContrast True))
     (Inr \<lparr>resp_status = 500, statusText = ''Internal Server Error'',
           resp_json = Inr (JObject [(''error'', JString ''Internal server error'')])\<rparr>))
     = \<lparr>voiceNavigation = JBool False, screenReader = JBool False,
          highContrast = JBool True, largeText = JBool False, keyboardNav = JBool False\<rparr> \<and>
   error (persistSettings_settled
     (fst (updateSetting \<lparr>settings = DEFAULT_SETTINGS, isLoading = False, error = None\<rparr>
          None K_highContrast True))
     (Inr \<lparr>resp_status = 500, statusText = ''Internal Server Error'',
           resp_json = Inr (JObject [(''error'', JString ''Internal server error'')])\<rparr>))
     = Some ''Failed to save settings: 500 Internal server error'' \<and>
   error (persistSettings_settled
     (fst (updateSetting \<lparr>settings = DEFAULT_SETTINGS, isLoading = False, error = None\<rparr>
          None K_highContrast True))
     (Inl (Error ''Failed to fetch'')))
     = Some ''Failed to fetch''"
proof -
  let ?st = "\<lparr>settings = DEFAULT_SETTINGS, isLoading = False, error = None\<rparr>"
  let ?P = "\<lparr>voiceNavigation = False, screenReader = False, highContrast = True,
             largeText = False, keyboardNav = False\<rparr>"
  let ?st1 = "fst (updateSetting ?st None K_highContrast True)"
  let ?bad = "\<lparr>resp_status = 500, statusText = ''Internal Server Error'',
           resp_json = Inr (JObject [(''error'', JString ''Internal server error'')])\<rparr>"
  have n: "show_nat 500 = ''500''"
    by (simp add: show_nat.simps)
  have m: "response_msg ?bad = ''Internal server error''"
    by (simp add: response_msg_def)
  have k: "\<not> ok ?bad"
    by (simp add: ok_def)
  have p: "spread_key DEFAULT_SETTINGS K_highContrast (JBool True) = booleans ?P"
    by (simp add: DEFAULT_SETTINGS_def booleans_def)
  note t = updateSetting_optimistic[where st="?st" and uid=None and k=K_highContrast and v=True
      and P="?P" and st'="?st1"]
  from t[where fetched="Inr ?bad" and response="?bad"] p k
  have a: "settings ?st1 = booleans ?P"
    and b: "AccessibilitySettingsSchema (req_body (snd (updateSetting ?st None K_highContrast True))) = Inr ?P"
    and c: "settings (persistSettings_settled ?st1 (Inr ?bad)) = booleans ?P"
    and d: "error (persistSettings_settled ?st1 (Inr ?bad))
              = Some ''Failed to save settings: 500 Internal server error''"
    by (simp_all add: n m JSON_stringify_booleans schema_payload)
  from t[where fetched="Inl (Error ''Failed to fetch'')" and m="''Failed to fetch''"]
  have e: "error (persistSettings_settled ?st1 (Inl (Error ''Failed to fetch''))) = Some ''Failed to fetch''"
    by simp
  from a b c d e show ?thesis
    by (simp add: booleans_def)
qed

end
